theory Spec2Isabelle
  imports Complex_Main "HOL-Library.Sublist" "HOL-Library.AList"
begin

section \<open>Python exceptions\<close>

text \<open>
  Every \<open>raise\<close> of the orchestrator (\<open>calvin/models/play_lmp.py\<close>) and of the library
  calls it makes is a value: a computation returns \<open>Inl e\<close> when the Python code would
  leave with the exception \<open>e\<close>, and \<open>Inr v\<close> when it returns \<open>v\<close>.
\<close>

datatype error =
    TypeError
  | KeyError
  | AttributeError
  | AssertionError
  | ValueError
  | IndexError
  | RuntimeError

definition ebind :: "error + 'a \<Rightarrow> ('a \<Rightarrow> error + 'b) \<Rightarrow> error + 'b" where
  "ebind m f = (case m of Inl e \<Rightarrow> Inl e | Inr x \<Rightarrow> f x)"

section \<open>Input-size resolution: \<open>PlayLMP.setup_input_sizes\<close>\<close>

text \<open>
  A sub-network configuration is a dictionary-like object. The model keeps the three
  integer entries that \<open>setup_input_sizes\<close> reads or writes; an entry a configuration
  does not use is carried along unchanged. Python integers are unbounded, so they are
  \<open>int\<close>.
\<close>

record cfg =
  visual_features :: int
  num_c :: int
  n_state_obs :: int

record proprio_cfg =
  keep_indices :: "int list list"

text \<open>
  The ten arguments of \<open>setup_input_sizes\<close>. The optional ones (\<open>Optional[DictConfig]\<close>)
  are \<open>None\<close> when absent; a present configuration is a non-empty mapping, hence truthy.
  The function mutates its arguments in place, so the model returns them updated, also
  when it leaves with an exception: the writes made before the \<open>raise\<close> stay.
  The arguments are taken to be distinct objects.
\<close>

record configs =
  vision_static :: cfg
  depth_static :: "cfg option"
  vision_gripper :: "cfg option"
  depth_gripper :: "cfg option"
  plan_proposal :: cfg
  plan_recognition :: cfg
  visual_goal :: cfg
  decoder :: cfg
  proprio_state :: proprio_cfg
  tactile :: "cfg option"

text \<open>
  \<open>np.diff\<close> along the last axis: \<open>out[i] = a[i+1] - a[i]\<close>, one entry fewer than the row.
  The entries are positions in the proprioceptive state vector, so numpy's 64-bit
  integers do not overflow and are \<open>int\<close> as well.
\<close>

definition np_diff :: "int list \<Rightarrow> int list" where
  "np_diff r = map (\<lambda>(a, b). b - a) (zip r (tl r))"

text \<open>
  \<open>int(np.sum(np.diff([list(x) for x in [list(y) for y in keep_indices]])))\<close>.
  Rows of different lengths do not form a rectangular array, and the subtraction
  (or the construction of the array) raises.
\<close>

definition rectangular :: "int list list \<Rightarrow> bool" where
  "rectangular rows = (case rows of [] \<Rightarrow> True | r # rs \<Rightarrow> list_all (\<lambda>x. length x = length r) rs)"

definition compute_n_state_obs :: "int list list \<Rightarrow> error + int" where
  "compute_n_state_obs rows =
     (if rectangular rows then Inr (sum_list (map (\<lambda>r. sum_list (np_diff r)) rows))
      else Inl ValueError)"

definition set_n_state_obs :: "int \<Rightarrow> configs \<Rightarrow> configs" where
  "set_n_state_obs n c =
     c\<lparr>plan_proposal := (plan_proposal c)\<lparr>n_state_obs := n\<rparr>,
       plan_recognition := (plan_recognition c)\<lparr>n_state_obs := n\<rparr>,
       visual_goal := (visual_goal c)\<lparr>n_state_obs := n\<rparr>,
       decoder := (decoder c)\<lparr>n_state_obs := n\<rparr>\<rparr>"

definition set_visual_features :: "int \<Rightarrow> configs \<Rightarrow> configs" where
  "set_visual_features v c =
     c\<lparr>plan_proposal := (plan_proposal c)\<lparr>visual_features := v\<rparr>,
       plan_recognition := (plan_recognition c)\<lparr>visual_features := v\<rparr>,
       visual_goal := (visual_goal c)\<lparr>visual_features := v\<rparr>,
       decoder := (decoder c)\<lparr>visual_features := v\<rparr>\<rparr>"

text \<open>
  Lines 95-96: \<open>if depth_gripper and vision_gripper.num_c < 4: vision_gripper.num_c +=
  depth_gripper.num_c\<close>. The conjunction is evaluated left to right: with a depth
  configuration present, \<open>vision_gripper.num_c\<close> is read, which raises AttributeError on
  \<open>None\<close>.
\<close>

definition adjust_gripper :: "configs \<Rightarrow> error + configs" where
  "adjust_gripper c =
     (case depth_gripper c of
        None \<Rightarrow> Inr c
      | Some dg \<Rightarrow>
          (case vision_gripper c of
             None \<Rightarrow> Inl AttributeError
           | Some vg \<Rightarrow>
               if num_c vg < 4
               then Inr (c\<lparr>vision_gripper := Some (vg\<lparr>num_c := num_c vg + num_c dg\<rparr>)\<rparr>)
               else Inr c))"

text \<open>Lines 97-98, the same for the static camera, whose configuration is never absent.\<close>

definition adjust_static :: "configs \<Rightarrow> configs" where
  "adjust_static c =
     (case depth_static c of
        None \<Rightarrow> c
      | Some ds \<Rightarrow>
          if num_c (vision_static c) < 4
          then c\<lparr>vision_static := (vision_static c)\<lparr>num_c := num_c (vision_static c) + num_c ds\<rparr>\<rparr>
          else c)"

definition setup_input_sizes :: "configs \<Rightarrow> (error + unit) \<times> configs" where
  "setup_input_sizes c0 =
     (case compute_n_state_obs (keep_indices (proprio_state c0)) of
        Inl e \<Rightarrow> (Inl e, c0)
      | Inr n \<Rightarrow>
          let c1 = set_n_state_obs n c0;
              vf0 = visual_features (vision_static c1);
              vf1 = (case vision_gripper c1 of None \<Rightarrow> vf0 | Some vg \<Rightarrow> vf0 + visual_features vg)
          in (case adjust_gripper c1 of
                Inl e \<Rightarrow> (Inl e, c1)
              | Inr c2 \<Rightarrow>
                  let c3 = adjust_static c2;
                      vf2 = (case tactile c3 of None \<Rightarrow> vf1 | Some t \<Rightarrow> vf1 + visual_features t)
                  in (Inr (), set_visual_features vf2 c3)))"

text \<open>
  \<open>PlayLMP.__init__\<close> calls \<open>setup_input_sizes\<close> first and instantiates the sub-networks
  from the resolved configurations afterwards. The instantiation (\<open>hydra.utils.instantiate\<close>)
  is an external collaborator, taken as the parameter \<open>instantiate\<close>.
\<close>

definition init :: "(configs \<Rightarrow> error + 'm) \<Rightarrow> configs \<Rightarrow> error + 'm" where
  "init instantiate c =
     (case setup_input_sizes c of
        (Inl e, _) \<Rightarrow> Inl e
      | (Inr _, c') \<Rightarrow> instantiate c')"

text \<open>A list of half-open ranges \<open>[start, end]\<close> as \<open>keep_indices\<close> holds it.\<close>

definition ranges :: "(int \<times> int) list \<Rightarrow> int list list" where
  "ranges rs = map (\<lambda>(s, e). [s, e]) rs"

text \<open>
  A configuration as the repository's defaults give it: RGB encoders with three input
  channels, one-channel depth encoders for both cameras, a tactile encoder, and the
  proprioceptive ranges \<open>[[0,3],[3,6],[7,8]]\<close>.
\<close>

definition rgb_cfg :: cfg where
  "rgb_cfg = \<lparr>visual_features = 64, num_c = 3, n_state_obs = 0\<rparr>"

definition depth_cfg :: cfg where
  "depth_cfg = \<lparr>visual_features = 0, num_c = 1, n_state_obs = 0\<rparr>"

definition net_cfg :: cfg where
  "net_cfg = \<lparr>visual_features = 0, num_c = 0, n_state_obs = 0\<rparr>"

definition example_configs :: configs where
  "example_configs =
     \<lparr>vision_static = rgb_cfg, depth_static = Some depth_cfg,
      vision_gripper = Some rgb_cfg, depth_gripper = Some depth_cfg,
      plan_proposal = net_cfg, plan_recognition = net_cfg, visual_goal = net_cfg,
      decoder = net_cfg, proprio_state = \<lparr>keep_indices = [[0, 3], [3, 6], [7, 8]]\<rparr>,
      tactile = Some rgb_cfg\<rparr>"

text \<open>The same with a depth encoder for the gripper camera and no gripper camera.\<close>

definition depth_only_gripper_configs :: configs where
  "depth_only_gripper_configs = example_configs\<lparr>vision_gripper := None\<rparr>"

section \<open>Tensors\<close>

text \<open>
  A floating-point value is idealised: a finite value is a real number (rounding and
  overflow are not modelled), and \<open>NaN\<close> is kept, since the orchestrator's own arithmetic
  produces it when it averages over nothing (\<open>0.0 / 0\<close>). A comparison with \<open>NaN\<close> is
  false, as in IEEE 754.
\<close>

datatype scalar = Fin real | NaN

fun sadd :: "scalar \<Rightarrow> scalar \<Rightarrow> scalar" where
  "sadd (Fin a) (Fin b) = Fin (a + b)"
| "sadd _ _ = NaN"

fun smul :: "scalar \<Rightarrow> scalar \<Rightarrow> scalar" where
  "smul (Fin a) (Fin b) = Fin (a * b)"
| "smul _ _ = NaN"

fun sabs_diff :: "scalar \<Rightarrow> scalar \<Rightarrow> scalar" where
  "sabs_diff (Fin a) (Fin b) = Fin (\<bar>a - b\<bar>)"
| "sabs_diff _ _ = NaN"

text \<open>
  Division of an accumulated value by a count (\<open>total / len(batch)\<close>, the division inside
  \<open>mean\<close>). Where the count is 0 the accumulated value is the sum over nothing, \<open>0.0\<close>,
  at every use, and \<open>0.0 / 0\<close> is \<open>NaN\<close>.
\<close>

fun sdiv_count :: "scalar \<Rightarrow> nat \<Rightarrow> scalar" where
  "sdiv_count (Fin a) n = (if n = 0 then NaN else Fin (a / real n))"
| "sdiv_count NaN n = NaN"

fun sgt_zero :: "scalar \<Rightarrow> bool" where
  "sgt_zero (Fin a) = (0 < a)"
| "sgt_zero NaN = False"

fun seq :: "scalar \<Rightarrow> scalar \<Rightarrow> bool" where
  "seq (Fin a) (Fin b) = (a = b)"
| "seq _ _ = False"

definition ssum :: "scalar list \<Rightarrow> scalar" where
  "ssum xs = foldl sadd (Fin 0) xs"

text \<open>\<open>x.mean()\<close> over all elements; the mean of no element is \<open>NaN\<close>.\<close>

definition smean :: "scalar list \<Rightarrow> scalar" where
  "smean xs = sdiv_count (ssum xs) (length xs)"

text \<open>
  A tensor is its shape and its elements in row-major order. A zero-dimensional tensor
  (a loss value) is a \<open>scalar\<close>.
\<close>

datatype tensor = Tensor (shape: "nat list") (data: "scalar list")

definition numel :: "nat list \<Rightarrow> nat" where
  "numel sh = prod_list sh"

text \<open>\<open>chunks n k xs\<close>: the first \<open>k\<close> consecutive pieces of length \<open>n\<close> of \<open>xs\<close>.\<close>

fun chunks :: "nat \<Rightarrow> nat \<Rightarrow> 'a list \<Rightarrow> 'a list list" where
  "chunks n 0 xs = []"
| "chunks n (Suc k) xs = take n xs # chunks n k (drop n xs)"

text \<open>
  A Python dimension or index \<open>d\<close> for an axis of extent \<open>r\<close>: negative values count from
  the end, anything outside \<open>[-r, r)\<close> raises IndexError.
\<close>

definition wrap_dim :: "int \<Rightarrow> nat \<Rightarrow> error + nat" where
  "wrap_dim d r =
     (if 0 \<le> d \<and> d < int r then Inr (nat d)
      else if - int r \<le> d \<and> d < 0 then Inr (nat (int r + d))
      else Inl IndexError)"

text \<open>
  \<open>x.reshape(-1, d1, ..., dk)\<close>: the leading extent is inferred. It raises when the
  number of elements is not a multiple of \<open>d1 * ... * dk\<close>, and when that product is 0
  (no extent, or any extent, would do).
\<close>

definition reshape_infer_first :: "tensor \<Rightarrow> nat list \<Rightarrow> error + tensor" where
  "reshape_infer_first t rest =
     (let n = numel (shape t); m = numel rest
      in if m = 0 \<or> n mod m \<noteq> 0 then Inl RuntimeError
         else Inr (Tensor ((n div m) # rest) (data t)))"

text \<open>\<open>x.reshape(d1, ..., dk, -1)\<close>: the trailing extent is inferred.\<close>

definition reshape_infer_last :: "tensor \<Rightarrow> nat list \<Rightarrow> error + tensor" where
  "reshape_infer_last t front =
     (let n = numel (shape t); m = numel front
      in if m = 0 \<or> n mod m \<noteq> 0 then Inl RuntimeError
         else Inr (Tensor (front @ [n div m]) (data t)))"

text \<open>\<open>torch.unsqueeze(x, d)\<close> and \<open>x.unsqueeze(d)\<close> for \<open>d \<ge> 0\<close>.\<close>

definition unsqueeze :: "tensor \<Rightarrow> nat \<Rightarrow> error + tensor" where
  "unsqueeze t d =
     (if d \<le> length (shape t)
      then Inr (Tensor (take d (shape t) @ [1] @ drop d (shape t)) (data t))
      else Inl IndexError)"

text \<open>
  \<open>torch.cat([a, b], dim=ax)\<close>. A one-dimensional empty tensor (shape \<open>[0]\<close>) is skipped.
  Otherwise the two tensors must have the same number of dimensions, at least one, and
  the same extents except along that axis.
\<close>

definition cat_shapes_ok :: "nat \<Rightarrow> nat list \<Rightarrow> nat list \<Rightarrow> bool" where
  "cat_shapes_ok d sa sb =
     (length sa = length sb \<and> take d sa = take d sb \<and> drop (Suc d) sa = drop (Suc d) sb)"

definition cat :: "tensor \<Rightarrow> tensor \<Rightarrow> int \<Rightarrow> error + tensor" where
  "cat a b ax =
     (if shape a = [0] \<and> shape b = [0] then Inr (Tensor [0] [])
      else if shape a = [0] then ebind (wrap_dim ax (length (shape b))) (\<lambda>d. Inr b)
      else if shape b = [0] then ebind (wrap_dim ax (length (shape a))) (\<lambda>d. Inr a)
      else ebind (wrap_dim ax (length (shape a))) (\<lambda>d.
        if \<not> cat_shapes_ok d (shape a) (shape b) then Inl RuntimeError
        else
          let outer = numel (take d (shape a));
              ca = chunks (numel (drop d (shape a))) outer (data a);
              cb = chunks (numel (drop d (shape b))) outer (data b)
          in Inr (Tensor (take d (shape a) @ [shape a ! d + shape b ! d] @ drop (Suc d) (shape a))
                    (concat (map (\<lambda>(x, y). x @ y) (zip ca cb))))))"

text \<open>\<open>x[:, i]\<close>: the slice at index \<open>i\<close> of the second axis.\<close>

definition select_dim1 :: "tensor \<Rightarrow> int \<Rightarrow> error + tensor" where
  "select_dim1 t i =
     (case shape t of
        b # s # rest \<Rightarrow>
          ebind (wrap_dim i s) (\<lambda>k.
            Inr (Tensor (b # rest)
              (concat (map (\<lambda>c. take (numel rest) (drop (k * numel rest) c))
                 (chunks (s * numel rest) b (data t))))))
      | _ \<Rightarrow> Inl IndexError)"

text \<open>\<open>x[..., -1]\<close>: the last entry along the last axis.\<close>

definition select_last :: "tensor \<Rightarrow> error + tensor" where
  "select_last t =
     (if shape t = [] \<or> last (shape t) = 0 then Inl IndexError
      else Inr (Tensor (butlast (shape t))
             (map last (chunks (last (shape t)) (numel (butlast (shape t))) (data t)))))"

text \<open>\<open>x[..., :-1]\<close>: all but the last entry along the last axis.\<close>

definition drop_last :: "tensor \<Rightarrow> error + tensor" where
  "drop_last t =
     (if shape t = [] then Inl IndexError
      else Inr (Tensor (butlast (shape t) @ [last (shape t) - 1])
             (concat (map butlast (chunks (last (shape t)) (numel (butlast (shape t))) (data t))))))"

text \<open>
  \<open>torch.nn.functional.l1_loss(a, b, reduction="none")\<close> and \<open>a == b\<close>, element by
  element. The two operands have the same shape wherever the decoder returns actions
  shaped like the ground truth; broadcasting of different shapes is not modelled and is
  the error \<open>RuntimeError\<close> here.
\<close>

definition l1_loss :: "tensor \<Rightarrow> tensor \<Rightarrow> error + tensor" where
  "l1_loss a b =
     (if shape a = shape b
      then Inr (Tensor (shape a) (map (\<lambda>(x, y). sabs_diff x y) (zip (data a) (data b))))
      else Inl RuntimeError)"

text \<open>\<open>torch.mean(x, 1)\<close>: the mean along the second axis, which disappears.\<close>

definition transpose_chunks :: "nat \<Rightarrow> 'a list list \<Rightarrow> 'a list list" where
  "transpose_chunks n rows = map (\<lambda>j. map (\<lambda>r. r ! j) rows) [0..<n]"

definition mean_dim1 :: "tensor \<Rightarrow> error + tensor" where
  "mean_dim1 t =
     (case shape t of
        b # s # rest \<Rightarrow>
          Inr (Tensor (b # rest)
            (concat (map (\<lambda>c. map smean (transpose_chunks (numel rest) (chunks (numel rest) s c)))
               (chunks (s * numel rest) b (data t)))))
      | _ \<Rightarrow> Inl IndexError)"

section \<open>Python containers\<close>

text \<open>
  \<open>visual_embedding\<close> is annotated with dictionaries (\<open>Dict[str, torch.Tensor]\<close>) and is
  called with dictionaries by the training and validation steps, and with lists of
  tensors by the inference entry points. Python checks no annotation, so its two
  arguments are values of either kind. A dictionary is an association list, looked up
  with \<open>map_of\<close>.
\<close>

datatype container = PyDict "(string \<times> tensor) list" | PyList "tensor list"

text \<open>
  \<open>obj[key]\<close> with a string key: KeyError on a dictionary without the key, TypeError
  on a list (list indices must be integers or slices).
\<close>

fun getitem :: "container \<Rightarrow> string \<Rightarrow> error + tensor" where
  "getitem (PyDict kvs) k = (case map_of kvs k of None \<Rightarrow> Inl KeyError | Some v \<Rightarrow> Inr v)"
| "getitem (PyList xs) k = Inl TypeError"

text \<open>
  \<open>key in obj\<close> with a string key: a key of the dictionary; on a list of tensors no
  element compares equal to a string.
\<close>

fun contains :: "container \<Rightarrow> string \<Rightarrow> bool" where
  "contains (PyDict kvs) k = (map_of kvs k \<noteq> None)"
| "contains (PyList xs) k = False"

text \<open>The conditional expression \<open>src[key] if key in obj else None\<close>.\<close>

definition getitem_if_in :: "container \<Rightarrow> string \<Rightarrow> container \<Rightarrow> error + tensor option" where
  "getitem_if_in src k obj =
     (if contains obj k then ebind (getitem src k) (\<lambda>v. Inr (Some v)) else Inr None)"

text \<open>A list comprehension \<open>[f(x) for x in xs]\<close> stops at the first exception.\<close>

fun emap :: "('a \<Rightarrow> error + 'b) \<Rightarrow> 'a list \<Rightarrow> error + 'b list" where
  "emap f [] = Inr []"
| "emap f (x # xs) = ebind (f x) (\<lambda>y. ebind (emap f xs) (\<lambda>ys. Inr (y # ys)))"

section \<open>The orchestrator's state and its sub-networks\<close>

text \<open>
  The sub-networks are external collaborators. Each is known by what it maps to what;
  its result depends on its trainable parameters, of which the orchestrator's state
  holds the current value (\<open>params\<close>). A sub-network may raise (a dimension mismatch).
  The gripper encoder, the tactile encoder and the language-goal encoder are \<open>None\<close> when
  not configured, and calling \<open>None\<close> raises TypeError.
  A plan distribution is a value of the type \<open>'d\<close>; \<open>dist_sample d k\<close> is the \<open>k\<close>-th draw
  of the random number generator from \<open>d\<close> (\<open>sample()\<close>, \<open>rsample()\<close>).
  A tensor a sub-network returns is a tensor of its own: it shares no storage with the
  tensors passed in, so writing into it in place changes no other tensor.
\<close>

datatype net = VisionStatic | VisionGripper | Tactile | VisualGoal | LanguageGoal
  | PlanProposal | PlanRecognition | ActionDecoder

record ('p, 'd, 'l) nets =
  vision_static_net :: "'p \<Rightarrow> tensor \<Rightarrow> error + tensor"
  vision_gripper_net :: "('p \<Rightarrow> tensor \<Rightarrow> error + tensor) option"
  tactile_enc :: "('p \<Rightarrow> tensor \<Rightarrow> error + tensor) option"
  visual_goal_net :: "'p \<Rightarrow> tensor \<Rightarrow> error + tensor"
  language_goal_net :: "('p \<Rightarrow> 'l \<Rightarrow> error + tensor) option"
  plan_proposal_net :: "'p \<Rightarrow> tensor \<Rightarrow> tensor \<Rightarrow> error + 'd"
  plan_recognition_net :: "'p \<Rightarrow> tensor \<Rightarrow> error + 'd"
  decoder_loss :: "'p \<Rightarrow> tensor \<Rightarrow> tensor \<Rightarrow> tensor \<Rightarrow> tensor \<Rightarrow> error + scalar"
  decoder_loss_and_act :: "'p \<Rightarrow> tensor \<Rightarrow> tensor \<Rightarrow> tensor \<Rightarrow> tensor \<Rightarrow> error + scalar \<times> tensor"
  decoder_act :: "'p \<Rightarrow> tensor \<Rightarrow> tensor \<Rightarrow> tensor \<Rightarrow> error + tensor"
  dist_sample :: "'d \<Rightarrow> nat \<Rightarrow> tensor"
  kl_divergence :: "'d \<Rightarrow> 'd \<Rightarrow> error + tensor"

text \<open>
  The state one call can read or change: the trainable parameters, the KL weight
  \<open>self.kl_beta\<close>, the field \<open>self.modality_scope\<close>, whether gradients are tracked
  (\<open>torch.no_grad()\<close> switches it off), the record of the sub-network calls made (which
  network, and whether gradients were tracked during the call), the position of the
  random number generator, and the metrics handed to the logger.
\<close>

record 'p state =
  params :: 'p
  kl_beta :: scalar
  modality_scope :: string
  grad_enabled :: bool
  calls :: "(net \<times> bool) list"
  rng :: nat
  logged :: "(string \<times> scalar) list"

type_synonym ('a, 'p) run = "'p state \<Rightarrow> (error + 'a) \<times> 'p state"

definition ret :: "'a \<Rightarrow> ('a, 'p) run" where
  "ret x st = (Inr x, st)"

definition lift :: "error + 'a \<Rightarrow> ('a, 'p) run" where
  "lift r st = (r, st)"

definition seq_bind :: "('a, 'p) run \<Rightarrow> ('a \<Rightarrow> ('b, 'p) run) \<Rightarrow> ('b, 'p) run" where
  "seq_bind m f st = (case m st of (Inl e, st') \<Rightarrow> (Inl e, st') | (Inr x, st') \<Rightarrow> f x st')"

text \<open>The forward pass of a sub-network: it reads the parameters and is recorded.\<close>

definition call :: "net \<Rightarrow> ('p \<Rightarrow> error + 'a) \<Rightarrow> ('a, 'p) run" where
  "call n f st = (f (params st), st\<lparr>calls := calls st @ [(n, grad_enabled st)]\<rparr>)"

text \<open>Calling an optional sub-network that is \<open>None\<close> raises TypeError before any forward pass.\<close>

definition call_opt :: "net \<Rightarrow> ('p \<Rightarrow> 'x \<Rightarrow> error + 'a) option \<Rightarrow> 'x \<Rightarrow> ('a, 'p) run" where
  "call_opt n f x = (case f of None \<Rightarrow> lift (Inl TypeError) | Some g \<Rightarrow> call n (\<lambda>p. g p x))"

definition draw :: "('p, 'd, 'l) nets \<Rightarrow> 'd \<Rightarrow> (tensor, 'p) run" where
  "draw N d st = (Inr (dist_sample N d (rng st)), st\<lparr>rng := Suc (rng st)\<rparr>)"

text \<open>\<open>self.log(name, value, ...)\<close>.\<close>

definition log :: "string \<Rightarrow> scalar \<Rightarrow> (unit, 'p) run" where
  "log name v st = (Inr (), st\<lparr>logged := logged st @ [(name, v)]\<rparr>)"

text \<open>
  \<open>with torch.no_grad(): body\<close>: gradient tracking is off inside and restored on the way
  out, also when the body raises.
\<close>

definition no_grad :: "('a, 'p) run \<Rightarrow> ('a, 'p) run" where
  "no_grad body st =
     (case body (st\<lparr>grad_enabled := False\<rparr>) of
        (r, st') \<Rightarrow> (r, st'\<lparr>grad_enabled := grad_enabled st\<rparr>))"

section \<open>Visual and perceptual embedding\<close>

text \<open>\<open>b, s, c, h, w = x.shape\<close> raises ValueError unless the tensor has five dimensions.\<close>

definition unpack5 :: "tensor \<Rightarrow> error + nat \<times> nat \<times> nat \<times> nat \<times> nat" where
  "unpack5 t = (case shape t of [b, s, c, h, w] \<Rightarrow> Inr (b, s, c, h, w) | _ \<Rightarrow> Inl ValueError)"

text \<open>
  Lines 119-122 and 130-135: an optional depth tensor becomes one more channel of the
  flattened image batch.
\<close>

definition fuse_depth :: "tensor \<Rightarrow> tensor option \<Rightarrow> nat \<Rightarrow> nat \<Rightarrow> error + tensor" where
  "fuse_depth imgs depth h w =
     (case depth of
        None \<Rightarrow> Inr imgs
      | Some d \<Rightarrow>
          ebind (unsqueeze d 2) (\<lambda>d1.
          ebind (reshape_infer_first d1 [1, h, w]) (\<lambda>d2.
          cat imgs d2 1)))"

text \<open>Lines 117-125: the static camera.\<close>

definition embed_static ::
  "('p, 'd, 'l) nets \<Rightarrow> tensor \<Rightarrow> tensor option \<Rightarrow> (tensor, 'p) run" where
  "embed_static N imgs_static depth =
     seq_bind (lift (unpack5 imgs_static)) (\<lambda>(b, s, c, h, w).
     seq_bind (lift (reshape_infer_first imgs_static [c, h, w])) (\<lambda>flat.
     seq_bind (lift (fuse_depth flat depth h w)) (\<lambda>fused.
     seq_bind (call VisionStatic (\<lambda>p. vision_static_net N p fused)) (\<lambda>encoded.
     lift (reshape_infer_last encoded [b, s])))))"

text \<open>Lines 127-138: the gripper camera, when the images hold one.\<close>

definition embed_gripper ::
  "('p, 'd, 'l) nets \<Rightarrow> tensor \<Rightarrow> tensor option \<Rightarrow> tensor option \<Rightarrow> (tensor, 'p) run" where
  "embed_gripper N encoded_imgs imgs_gripper depth =
     (case imgs_gripper of
        None \<Rightarrow> ret encoded_imgs
      | Some g \<Rightarrow>
          seq_bind (lift (unpack5 g)) (\<lambda>(b, s, c, h, w).
          seq_bind (lift (reshape_infer_first g [c, h, w])) (\<lambda>flat.
          seq_bind (lift (fuse_depth flat depth h w)) (\<lambda>fused.
          seq_bind (call_opt VisionGripper (vision_gripper_net N) fused) (\<lambda>encoded.
          seq_bind (lift (reshape_infer_last encoded [b, s])) (\<lambda>encoded_imgs_gripper.
          lift (cat encoded_imgs encoded_imgs_gripper (- 1))))))))"

text \<open>Lines 140-145: the tactile sensor, when the images hold one.\<close>

definition embed_tactile ::
  "('p, 'd, 'l) nets \<Rightarrow> tensor \<Rightarrow> tensor option \<Rightarrow> (tensor, 'p) run" where
  "embed_tactile N encoded_imgs imgs_tactile =
     (case imgs_tactile of
        None \<Rightarrow> ret encoded_imgs
      | Some t \<Rightarrow>
          seq_bind (lift (unpack5 t)) (\<lambda>(b, s, c, h, w).
          seq_bind (lift (reshape_infer_first t [c, h, w])) (\<lambda>flat.
          seq_bind (call_opt Tactile (tactile_enc N) flat) (\<lambda>encoded.
          seq_bind (lift (reshape_infer_last encoded [b, s])) (\<lambda>encoded_tactile.
          lift (cat encoded_imgs encoded_tactile (- 1)))))))"

text \<open>
  \<open>visual_embedding\<close>, lines 110-146. Lines 114 and 115 test the depth mapping for the
  key and read the key from \<open>imgs\<close>.
\<close>

definition visual_embedding ::
  "('p, 'd, 'l) nets \<Rightarrow> container \<Rightarrow> container \<Rightarrow> (tensor, 'p) run" where
  "visual_embedding N imgs depth_imgs =
     seq_bind (lift (getitem imgs ''rgb_static'')) (\<lambda>imgs_static.
     seq_bind (lift (getitem_if_in imgs ''rgb_gripper'' imgs)) (\<lambda>imgs_gripper.
     seq_bind (lift (getitem_if_in imgs ''rgb_tactile'' imgs)) (\<lambda>imgs_tactile.
     seq_bind (lift (getitem_if_in imgs ''depth_static'' depth_imgs)) (\<lambda>depth_static.
     seq_bind (lift (getitem_if_in imgs ''depth_gripper'' depth_imgs)) (\<lambda>depth_gripper.
     seq_bind (embed_static N imgs_static depth_static) (\<lambda>encoded_imgs.
     seq_bind (embed_gripper N encoded_imgs imgs_gripper depth_gripper) (\<lambda>encoded_imgs1.
     embed_tactile N encoded_imgs1 imgs_tactile)))))))"

definition perceptual_embedding :: "tensor \<Rightarrow> tensor \<Rightarrow> error + tensor" where
  "perceptual_embedding visual_emb obs = cat visual_emb obs (- 1)"

section \<open>Training-time and validation-time evaluation\<close>

definition get_state :: "('p state, 'p) run" where
  "get_state st = (Inr st, st)"

text \<open>The loop target \<open>for self.modality_scope, dataset_batch in batch.items()\<close>.\<close>

definition set_modality_scope :: "string \<Rightarrow> (unit, 'p) run" where
  "set_modality_scope name st = (Inr (), st\<lparr>modality_scope := name\<rparr>)"

definition tensor_mean :: "tensor \<Rightarrow> scalar" where
  "tensor_mean t = smean (data t)"

text \<open>\<open>compute_kl_loss\<close>, lines 289-299.\<close>

definition compute_kl_loss :: "('p, 'd, 'l) nets \<Rightarrow> 'd \<Rightarrow> 'd \<Rightarrow> (scalar, 'p) run" where
  "compute_kl_loss N pr_dist pp_dist =
     seq_bind (lift (kl_divergence N pr_dist pp_dist)) (\<lambda>kl.
     seq_bind get_state (\<lambda>self.
       let kl_loss = tensor_mean kl;
           kl_loss_scaled = smul kl_loss (kl_beta self)
       in
     seq_bind (log (''train/kl_loss_'' @ modality_scope self) kl_loss) (\<lambda>_.
     seq_bind (log (''train/kl_loss_scaled_'' @ modality_scope self) kl_loss_scaled) (\<lambda>_.
     seq_bind (log ''train/kl_beta'' (kl_beta self)) (\<lambda>_.
     ret kl_loss_scaled)))))"

text \<open>\<open>lmp_train\<close>, lines 152-168.\<close>

definition lmp_train ::
  "('p, 'd, 'l) nets \<Rightarrow> tensor \<Rightarrow> tensor \<Rightarrow> tensor
     \<Rightarrow> (scalar \<times> scalar \<times> scalar \<times> 'd \<times> 'd, 'p) run" where
  "lmp_train N perceptual_emb latent_goal train_acts =
     seq_bind (lift (select_dim1 perceptual_emb 0)) (\<lambda>first.
     seq_bind (call PlanProposal (\<lambda>p. plan_proposal_net N p first latent_goal)) (\<lambda>pp_dist.
     seq_bind (call PlanRecognition (\<lambda>p. plan_recognition_net N p perceptual_emb)) (\<lambda>pr_dist.
     seq_bind (draw N pr_dist) (\<lambda>sampled_plan.
     seq_bind (call ActionDecoder
                 (\<lambda>p. decoder_loss N p sampled_plan perceptual_emb latent_goal train_acts))
       (\<lambda>action_loss.
     seq_bind (compute_kl_loss N pr_dist pp_dist) (\<lambda>kl_loss.
     ret (kl_loss, action_loss, sadd action_loss kl_loss, pp_dist, pr_dist)))))))"

text \<open>
  The gripper action of lines 197-202 and 217-221. The prediction is thresholded at
  zero, in place: \<open>m = g > 0; g[m] = 1; g[~m] = -1\<close>.
\<close>

definition binarize :: "tensor \<Rightarrow> tensor" where
  "binarize g = Tensor (shape g) (map (\<lambda>x. if sgt_zero x then Fin 1 else Fin (- 1)) (data g))"

text \<open>\<open>(a == b).float()\<close>: 1 where the two elements are equal, 0 elsewhere.\<close>

definition eq_float :: "tensor \<Rightarrow> tensor \<Rightarrow> error + tensor" where
  "eq_float a b =
     (if shape a = shape b
      then Inr (Tensor (shape a) (map (\<lambda>(x, y). if seq x y then Fin 1 else Fin 0) (zip (data a) (data b))))
      else Inl RuntimeError)"

text \<open>
  \<open>torch.mean((gt_gripper_act == gripper_discrete).float())\<close> with
  \<open>gripper_discrete = sample_act[..., -1]\<close> thresholded. The ground truth
  \<open>gt_gripper_act = actions[..., -1]\<close> enters the comparison as it is.
\<close>

definition gripper_sr :: "tensor \<Rightarrow> tensor \<Rightarrow> error + scalar" where
  "gripper_sr gt_gripper_act gripper_discrete =
     ebind (eq_float gt_gripper_act (binarize gripper_discrete)) (\<lambda>e. Inr (tensor_mean e))"

text \<open>Lines 192-195 and 211-214: the absolute error of the first six action entries.\<close>

definition mae :: "tensor \<Rightarrow> tensor \<Rightarrow> error + tensor" where
  "mae sample_act acts =
     ebind (drop_last sample_act) (\<lambda>a.
     ebind (drop_last acts) (\<lambda>b.
     ebind (l1_loss a b) mean_dim1))"

text \<open>\<open>lmp_val\<close>, lines 170-233.\<close>

definition lmp_val ::
  "('p, 'd, 'l) nets \<Rightarrow> tensor \<Rightarrow> tensor \<Rightarrow> tensor
     \<Rightarrow> (tensor \<times> scalar \<times> tensor \<times> scalar \<times> scalar \<times> tensor \<times> tensor \<times> scalar \<times> scalar, 'p) run"
  where
  "lmp_val N perceptual_emb latent_goal acts =
     seq_bind (lift (select_dim1 perceptual_emb 0)) (\<lambda>first.
     seq_bind (call PlanProposal (\<lambda>p. plan_proposal_net N p first latent_goal)) (\<lambda>pp_dist.
     seq_bind (draw N pp_dist) (\<lambda>sampled_plan_pp.
     seq_bind (call ActionDecoder
                 (\<lambda>p. decoder_loss_and_act N p sampled_plan_pp perceptual_emb latent_goal acts))
       (\<lambda>(action_loss_pp, sample_act_pp).
     seq_bind (lift (mae sample_act_pp acts)) (\<lambda>mae_pp.
     seq_bind (lift (select_last sample_act_pp)) (\<lambda>gripper_discrete_pp.
     seq_bind (lift (select_last acts)) (\<lambda>gt_gripper_act.
     seq_bind (lift (gripper_sr gt_gripper_act gripper_discrete_pp)) (\<lambda>gripper_sr_pp.
     seq_bind (call PlanRecognition (\<lambda>p. plan_recognition_net N p perceptual_emb)) (\<lambda>pr_dist.
     seq_bind (draw N pr_dist) (\<lambda>sampled_plan_pr.
     seq_bind (call ActionDecoder
                 (\<lambda>p. decoder_loss_and_act N p sampled_plan_pr perceptual_emb latent_goal acts))
       (\<lambda>(action_loss_pr, sample_act_pr).
     seq_bind (lift (mae sample_act_pr acts)) (\<lambda>mae_pr.
     seq_bind (compute_kl_loss N pr_dist pp_dist) (\<lambda>kl_loss.
     seq_bind (lift (select_last sample_act_pr)) (\<lambda>gripper_discrete_pr.
     seq_bind (lift (gripper_sr gt_gripper_act gripper_discrete_pr)) (\<lambda>gripper_sr_pr.
     ret (sampled_plan_pp, action_loss_pp, sampled_plan_pr, action_loss_pr, kl_loss,
          mae_pp, mae_pr, gripper_sr_pp, gripper_sr_pr))))))))))))))))"

section \<open>Training and validation steps\<close>

text \<open>
  One modality batch: the entries of the dictionary the data loader supplies. The
  language instruction is the optional one; reading it where it is absent raises
  KeyError.
\<close>

record 'l dataset_batch =
  rgb_obs :: "(string \<times> tensor) list"
  depth_obs :: "(string \<times> tensor) list"
  robot_obs :: tensor
  actions :: tensor
  lang :: "'l option"
  idx :: tensor

text \<open>
  Lines 268-272 and 333-337, the same conditional expression in both steps:
  \<open>self.visual_goal(perceptual_emb[:, -1]) if "vis" in self.modality_scope else
  self.language_goal(dataset_batch["lang"])\<close>. The test is Python's substring test.
\<close>

definition latent_goal_of ::
  "('p, 'd, 'l) nets \<Rightarrow> tensor \<Rightarrow> 'l dataset_batch \<Rightarrow> (tensor, 'p) run" where
  "latent_goal_of N perceptual_emb db =
     seq_bind get_state (\<lambda>self.
       if sublist ''vis'' (modality_scope self)
       then seq_bind (lift (select_dim1 perceptual_emb (- 1))) (\<lambda>goal_emb.
              call VisualGoal (\<lambda>p. visual_goal_net N p goal_emb))
       else seq_bind (lift (case lang db of None \<Rightarrow> Inl KeyError | Some l \<Rightarrow> Inr l)) (\<lambda>l.
              call_opt LanguageGoal (language_goal_net N) l))"

text \<open>
  The body of the loop of \<open>training_step\<close>, lines 265-280, for one item of the batch.
  It leaves the five values \<open>kl, act_loss, mod_loss, pp_dist, pr_dist\<close> bound.
\<close>

definition train_modality ::
  "('p, 'd, 'l) nets \<Rightarrow> string \<times> 'l dataset_batch
     \<Rightarrow> (scalar \<times> scalar \<times> scalar \<times> 'd \<times> 'd, 'p) run" where
  "train_modality N item =
     (case item of (name, db) \<Rightarrow>
     seq_bind (set_modality_scope name) (\<lambda>_.
     seq_bind (visual_embedding N (PyDict (rgb_obs db)) (PyDict (depth_obs db))) (\<lambda>visual_emb.
     seq_bind (lift (perceptual_embedding visual_emb (robot_obs db))) (\<lambda>perceptual_emb.
     seq_bind (latent_goal_of N perceptual_emb db) (\<lambda>latent_goal.
     seq_bind (lmp_train N perceptual_emb latent_goal (actions db))
       (\<lambda>(kl, act_loss, mod_loss, pp_dist, pr_dist).
     seq_bind (log (''train/action_loss_'' @ name) act_loss) (\<lambda>_.
     seq_bind (log (''train/total_loss_'' @ name) mod_loss) (\<lambda>_.
     ret (kl, act_loss, mod_loss, pp_dist, pr_dist)))))))))"

text \<open>The loop with its three accumulators \<open>kl_loss\<close>, \<open>action_loss\<close>, \<open>total_loss\<close>.\<close>

fun training_loop ::
  "('p, 'd, 'l) nets \<Rightarrow> (string \<times> 'l dataset_batch) list \<Rightarrow> scalar \<times> scalar \<times> scalar
     \<Rightarrow> (scalar \<times> scalar \<times> scalar, 'p) run" where
  "training_loop N [] acc = ret acc"
| "training_loop N (item # rest) acc =
     seq_bind (train_modality N item) (\<lambda>(kl, act_loss, mod_loss, pp_dist, pr_dist).
       case acc of (kl_loss, action_loss, total_loss) \<Rightarrow>
         training_loop N rest (sadd kl_loss kl, sadd action_loss act_loss, sadd total_loss mod_loss))"

text \<open>
  \<open>training_step\<close>, lines 259-287. The batch is a dictionary from modality name to
  modality batch, traversed in insertion order.
\<close>

definition training_step ::
  "('p, 'd, 'l) nets \<Rightarrow> (string \<times> 'l dataset_batch) list \<Rightarrow> (scalar, 'p) run" where
  "training_step N batch =
     seq_bind (training_loop N batch (Fin 0, Fin 0, Fin 0)) (\<lambda>(kl_sum, action_sum, total_sum).
       let total_loss = sdiv_count total_sum (length batch);
           kl_loss = sdiv_count kl_sum (length batch);
           action_loss = sdiv_count action_sum (length batch)
       in
     seq_bind (log ''train/kl_loss'' kl_loss) (\<lambda>_.
     seq_bind (log ''train/action_loss'' action_loss) (\<lambda>_.
     seq_bind (log ''train/total_loss'' total_loss) (\<lambda>_.
     ret total_loss))))"

text \<open>
  A value stored in the output dictionary of \<open>validation_step\<close>. The dictionary is an
  association list in insertion order.
\<close>

datatype out_value = OutScalar scalar | OutTensor tensor

text \<open>The body of the loop of \<open>validation_step\<close>, lines 330-358.\<close>

text \<open>
  \<open>output[key] = value\<close> for each of a list of entries in turn: the value of a key
  already present is replaced, a new key is added at the end.
\<close>

definition store_all :: "(string \<times> out_value) list \<Rightarrow> (string \<times> out_value) list
     \<Rightarrow> (string \<times> out_value) list" where
  "store_all entries output = foldl (\<lambda>d (k, v). AList.update k v d) output entries"

definition val_modality ::
  "('p, 'd, 'l) nets \<Rightarrow> string \<times> 'l dataset_batch \<Rightarrow> (string \<times> out_value) list
     \<Rightarrow> ((string \<times> out_value) list, 'p) run" where
  "val_modality N item output =
     (case item of (name, db) \<Rightarrow>
     seq_bind (set_modality_scope name) (\<lambda>_.
     seq_bind (visual_embedding N (PyDict (rgb_obs db)) (PyDict (depth_obs db))) (\<lambda>visual_emb.
     seq_bind (lift (perceptual_embedding visual_emb (robot_obs db))) (\<lambda>perceptual_emb.
     seq_bind (latent_goal_of N perceptual_emb db) (\<lambda>latent_goal.
     seq_bind (lmp_val N perceptual_emb latent_goal (actions db))
       (\<lambda>(sampled_plan_pp, action_loss_pp, sampled_plan_pr, action_loss_pr, kl_loss,
          mae_pp, mae_pr, gripper_sr_pp, gripper_sr_pr).
     ret (store_all
       [(''val_action_loss_pp_'' @ name, OutScalar action_loss_pp),
        (''sampled_plan_pp_'' @ name, OutTensor sampled_plan_pp),
        (''val_action_loss_pr_'' @ name, OutScalar action_loss_pr),
        (''sampled_plan_pr_'' @ name, OutTensor sampled_plan_pr),
        (''kl_loss_'' @ name, OutScalar kl_loss),
        (''mae_pp_'' @ name, OutTensor mae_pp),
        (''mae_pr_'' @ name, OutTensor mae_pr),
        (''gripper_sr_pp'' @ name, OutScalar gripper_sr_pp),
        (''gripper_sr_pr'' @ name, OutScalar gripper_sr_pr),
        (''idx_'' @ name, OutTensor (idx db))] output)))))))"

fun validation_loop ::
  "('p, 'd, 'l) nets \<Rightarrow> (string \<times> 'l dataset_batch) list \<Rightarrow> (string \<times> out_value) list
     \<Rightarrow> ((string \<times> out_value) list, 'p) run" where
  "validation_loop N [] output = ret output"
| "validation_loop N (item # rest) output =
     seq_bind (val_modality N item output) (\<lambda>output'. validation_loop N rest output')"

definition validation_step ::
  "('p, 'd, 'l) nets \<Rightarrow> (string \<times> 'l dataset_batch) list
     \<Rightarrow> ((string \<times> out_value) list, 'p) run" where
  "validation_step N batch = validation_loop N batch []"

section \<open>Inference entry points\<close>

text \<open>
  \<open>predict_with_plan\<close>, lines 431-449. The images and depths arrive as sequences of
  tensors; the list comprehensions make Python lists of them, and these lists are what
  \<open>visual_embedding\<close> receives.
\<close>

definition predict_with_plan ::
  "('p, 'd, 'l) nets \<Rightarrow> tensor list \<Rightarrow> tensor list \<Rightarrow> tensor \<Rightarrow> tensor \<Rightarrow> tensor
     \<Rightarrow> (tensor, 'p) run" where
  "predict_with_plan N curr_imgs curr_depths curr_state latent_goal sampled_plan =
     seq_bind (lift (emap (\<lambda>curr_img. unsqueeze curr_img 0) curr_imgs)) (\<lambda>imgs.
     seq_bind (lift (emap (\<lambda>curr_depth. unsqueeze curr_depth 0) curr_depths)) (\<lambda>depth_imgs.
     seq_bind (lift (unsqueeze curr_state 0)) (\<lambda>curr_state1.
     no_grad
       (seq_bind (visual_embedding N (PyList imgs) (PyList depth_imgs)) (\<lambda>visual_emb.
        seq_bind (lift (perceptual_embedding visual_emb curr_state1)) (\<lambda>perceptual_emb.
        call ActionDecoder (\<lambda>p. decoder_act N p sampled_plan perceptual_emb latent_goal)))))))"

text \<open>\<open>torch.cat([curr, goal]).unsqueeze(0)\<close>: concatenation along the first axis.\<close>

definition cat_pair :: "tensor \<times> tensor \<Rightarrow> error + tensor" where
  "cat_pair cg = (case cg of (c, g) \<Rightarrow> ebind (cat c g 0) (\<lambda>x. unsqueeze x 0))"

text \<open>\<open>get_pp_plan_vision\<close>, lines 451-477.\<close>

definition get_pp_plan_vision ::
  "('p, 'd, 'l) nets \<Rightarrow> tensor list \<Rightarrow> tensor list \<Rightarrow> tensor list \<Rightarrow> tensor list
     \<Rightarrow> tensor \<Rightarrow> tensor \<Rightarrow> (tensor \<times> tensor, 'p) run" where
  "get_pp_plan_vision N curr_imgs curr_depths goal_imgs goal_depths curr_state goal_state =
     (if length curr_imgs \<noteq> length goal_imgs then lift (Inl AssertionError)
      else if length curr_depths \<noteq> length goal_depths then lift (Inl AssertionError)
      else
     seq_bind (lift (emap cat_pair (zip curr_imgs goal_imgs))) (\<lambda>imgs.
     seq_bind (lift (emap cat_pair (zip curr_depths goal_depths))) (\<lambda>depth_imgs.
     seq_bind (lift (cat_pair (curr_state, goal_state))) (\<lambda>state.
     no_grad
       (seq_bind (visual_embedding N (PyList imgs) (PyList depth_imgs)) (\<lambda>visual_emb.
        seq_bind (lift (perceptual_embedding visual_emb state)) (\<lambda>perceptual_emb.
        seq_bind (lift (select_dim1 perceptual_emb (- 1))) (\<lambda>goal_emb.
        seq_bind (call VisualGoal (\<lambda>p. visual_goal_net N p goal_emb)) (\<lambda>latent_goal.
        seq_bind (lift (select_dim1 perceptual_emb 0)) (\<lambda>first.
        seq_bind (call PlanProposal (\<lambda>p. plan_proposal_net N p first latent_goal)) (\<lambda>pp_dist.
        seq_bind (draw N pp_dist) (\<lambda>sampled_plan.
        ret (sampled_plan, latent_goal)))))))))))))"

text \<open>\<open>get_pp_plan_lang\<close>, lines 479-497.\<close>

definition get_pp_plan_lang ::
  "('p, 'd, 'l) nets \<Rightarrow> tensor list \<Rightarrow> tensor list \<Rightarrow> tensor \<Rightarrow> 'l
     \<Rightarrow> (tensor \<times> tensor, 'p) run" where
  "get_pp_plan_lang N curr_imgs curr_depths curr_state goal_lang =
     seq_bind (lift (emap (\<lambda>curr_img. unsqueeze curr_img 0) curr_imgs)) (\<lambda>imgs.
     seq_bind (lift (emap (\<lambda>curr_depth. unsqueeze curr_depth 0) curr_depths)) (\<lambda>depth_imgs.
     seq_bind (lift (unsqueeze curr_state 0)) (\<lambda>curr_state1.
     no_grad
       (seq_bind (visual_embedding N (PyList imgs) (PyList depth_imgs)) (\<lambda>visual_emb.
        seq_bind (lift (perceptual_embedding visual_emb curr_state1)) (\<lambda>perceptual_emb.
        seq_bind (call_opt LanguageGoal (language_goal_net N) goal_lang) (\<lambda>latent_goal.
        seq_bind (lift (select_dim1 perceptual_emb 0)) (\<lambda>first.
        seq_bind (call PlanProposal (\<lambda>p. plan_proposal_net N p first latent_goal)) (\<lambda>pp_dist.
        seq_bind (draw N pp_dist) (\<lambda>sampled_plan.
        ret (sampled_plan, latent_goal)))))))))))"

section \<open>Specification-level notions\<close>

text \<open>
  The per-modality results of a training step, in the order of the batch: the loop body
  run for each item in turn, each on the state the previous one left, stopping at the
  first exception.
\<close>

fun train_all ::
  "('p, 'd, 'l) nets \<Rightarrow> (string \<times> 'l dataset_batch) list
     \<Rightarrow> ((scalar \<times> scalar \<times> scalar \<times> 'd \<times> 'd) list, 'p) run" where
  "train_all N [] = ret []"
| "train_all N (item # rest) =
     seq_bind (train_modality N item) (\<lambda>r.
     seq_bind (train_all N rest) (\<lambda>rs. ret (r # rs)))"

text \<open>
  The batch-averaged KL divergence from the recognition to the proposal distribution.
\<close>

definition kl_mean :: "('p, 'd, 'l) nets \<Rightarrow> 'd \<Rightarrow> 'd \<Rightarrow> scalar" where
  "kl_mean N pr_dist pp_dist =
     (case kl_divergence N pr_dist pp_dist of Inl e \<Rightarrow> NaN | Inr kl \<Rightarrow> tensor_mean kl)"

text \<open>
  The sum over modalities of \<open>action_loss + kl_beta * kl_divergence\<close>, divided by the
  number of modalities.
\<close>

definition mean_modality_loss ::
  "('p, 'd, 'l) nets \<Rightarrow> scalar \<Rightarrow> (scalar \<times> scalar \<times> scalar \<times> 'd \<times> 'd) list \<Rightarrow> scalar" where
  "mean_modality_loss N beta rs =
     sdiv_count
       (ssum (map (\<lambda>(kl, act_loss, mod_loss, pp_dist, pr_dist).
                     sadd act_loss (smul (kl_mean N pr_dist pp_dist) beta)) rs))
       (length rs)"

text \<open>
  What the five values of one modality are, in the networks' terms, for a step that
  starts in the state \<open>st\<close>: with \<open>pe\<close> the perceptual embedding of the modality batch
  and \<open>g\<close> its latent goal (from the visual-goal encoder on the last timestep of \<open>pe\<close>
  when the name contains \<open>vis\<close>, from the language-goal encoder on the instruction
  otherwise),
  \<^item> \<open>pp_dist\<close> is the plan-proposal network's distribution for the first timestep of
    \<open>pe\<close> and \<open>g\<close>;
  \<^item> \<open>pr_dist\<close> is the plan-recognition network's distribution for \<open>pe\<close>;
  \<^item> \<open>act_loss\<close> is the action decoder's loss for a sample of \<open>pr_dist\<close>, \<open>pe\<close>, \<open>g\<close> and the
    batch's actions;
  \<^item> \<open>kl\<close> is \<open>kl_beta\<close> times the mean of the KL divergence from \<open>pr_dist\<close> to \<open>pp_dist\<close>;
  \<^item> \<open>mod_loss\<close> is \<open>act_loss + kl\<close>.
\<close>

definition modality_result ::
  "('p, 'd, 'l) nets \<Rightarrow> 'p state \<Rightarrow> string \<times> 'l dataset_batch
     \<Rightarrow> scalar \<times> scalar \<times> scalar \<times> 'd \<times> 'd \<Rightarrow> bool" where
  "modality_result N st item r =
     (case item of (name, db) \<Rightarrow>
      case r of (kl, act_loss, mod_loss, pp_dist, pr_dist) \<Rightarrow>
        \<exists>ve pe g first k kl_t.
            fst (visual_embedding N (PyDict (rgb_obs db)) (PyDict (depth_obs db)) st) = Inr ve
          \<and> perceptual_embedding ve (robot_obs db) = Inr pe
          \<and> (if sublist ''vis'' name
              then \<exists>x. select_dim1 pe (- 1) = Inr x \<and> visual_goal_net N (params st) x = Inr g
              else \<exists>l f. lang db = Some l \<and> language_goal_net N = Some f
                     \<and> f (params st) l = Inr g)
          \<and> select_dim1 pe 0 = Inr first
          \<and> plan_proposal_net N (params st) first g = Inr pp_dist
          \<and> plan_recognition_net N (params st) pe = Inr pr_dist
          \<and> decoder_loss N (params st) (dist_sample N pr_dist k) pe g (actions db) = Inr act_loss
          \<and> kl_divergence N pr_dist pp_dist = Inr kl_t
          \<and> kl = smul (tensor_mean kl_t) (kl_beta st)
          \<and> mod_loss = sadd act_loss kl)"

text \<open>
  The fraction of the positions at which a relation holds between the ground-truth and
  the predicted gripper action.
\<close>

definition match_fraction :: "(scalar \<Rightarrow> scalar \<Rightarrow> bool) \<Rightarrow> tensor \<Rightarrow> tensor \<Rightarrow> scalar" where
  "match_fraction R gt g =
     sdiv_count (Fin (real (length (filter (\<lambda>(x, y). R x y) (zip (data gt) (data g))))))
       (length (zip (data gt) (data g)))"

definition sign_of :: "scalar \<Rightarrow> scalar" where
  "sign_of x = (if sgt_zero x then Fin 1 else Fin (- 1))"

text \<open>The match of the claim: both sides binarized.\<close>

definition both_binarized_match :: "scalar \<Rightarrow> scalar \<Rightarrow> bool" where
  "both_binarized_match x y = seq (sign_of x) (sign_of y)"

text \<open>The match of the code: the prediction binarized, the ground truth as it is.\<close>

definition prediction_binarized_match :: "scalar \<Rightarrow> scalar \<Rightarrow> bool" where
  "prediction_binarized_match x y = seq x (sign_of y)"

text \<open>The calls of the two goal encoders among the recorded sub-network calls.\<close>

definition goal_calls :: "(net \<times> bool) list \<Rightarrow> net list" where
  "goal_calls cs = filter (\<lambda>n. n = VisualGoal \<or> n = LanguageGoal) (map fst cs)"

section \<open>Frame conditions\<close>

text \<open>
  \<open>preserves S m\<close>: whatever its outcome, the computation \<open>m\<close> leaves the trainable
  parameters, the KL weight, the gradient mode and the modality scope as they were,
  and the sub-network calls it adds to the record are calls of networks in \<open>S\<close>.
\<close>

definition preserves :: "net set \<Rightarrow> ('a, 'p) run \<Rightarrow> bool" where
  "preserves S m =
     (\<forall>st. params (snd (m st)) = params st
         \<and> kl_beta (snd (m st)) = kl_beta st
         \<and> grad_enabled (snd (m st)) = grad_enabled st
         \<and> modality_scope (snd (m st)) = modality_scope st
         \<and> (\<exists>new. calls (snd (m st)) = calls st @ new \<and> fst ` set new \<subseteq> S))"

text \<open>
  \<open>param_determined m\<close>: the outcome of the computation \<open>m\<close> depends on the state only
  through the trainable parameters.
\<close>

definition param_determined :: "('a, 'p) run \<Rightarrow> bool" where
  "param_determined m = (\<forall>s s'. params s = params s' \<longrightarrow> fst (m s) = fst (m s'))"

section \<open>Examples\<close>

text \<open>One RGB image \<open>(1, 3, 2, 2)\<close> and one proprioceptive state \<open>(1, 8)\<close>, all zeros.\<close>

definition example_img :: tensor where
  "example_img = Tensor [1, 3, 2, 2] (replicate 12 (Fin 0))"

definition example_state :: tensor where
  "example_state = Tensor [1, 8] (replicate 8 (Fin 0))"

text \<open>
  Sub-networks small enough to run by hand: every encoder returns one zero feature per
  row, a plan distribution is represented by the tensor it always yields, the KL
  divergence of any two distributions is the one-element batch \<open>[2]\<close>, the decoder's
  loss is 1, and the actions it samples are six zeros and the gripper action \<open>1/2\<close>.
  There is no gripper and no tactile encoder.
\<close>

definition zero_features :: "tensor \<Rightarrow> error + tensor" where
  "zero_features t =
     (case shape t of [] \<Rightarrow> Inl RuntimeError
      | n # _ \<Rightarrow> Inr (Tensor [n, 1] (replicate n (Fin 0))))"

definition example_nets :: "(unit, tensor, string) nets" where
  "example_nets =
     \<lparr>vision_static_net = (\<lambda>p t. zero_features t),
      vision_gripper_net = None,
      tactile_enc = None,
      visual_goal_net = (\<lambda>p t. zero_features t),
      language_goal_net = Some (\<lambda>p l. Inr (Tensor [1, 1] [Fin 0])),
      plan_proposal_net = (\<lambda>p t g. Inr (Tensor [1, 1] [Fin 0])),
      plan_recognition_net = (\<lambda>p t. Inr (Tensor [1, 1] [Fin 0])),
      decoder_loss = (\<lambda>p plan emb goal acts. Inr (Fin 1)),
      decoder_loss_and_act = (\<lambda>p plan emb goal acts.
        Inr (Fin 1, Tensor [1, 1, 7] [Fin 0, Fin 0, Fin 0, Fin 0, Fin 0, Fin 0, Fin (1 / 2)])),
      decoder_act = (\<lambda>p plan emb goal. Inr (Tensor [1, 7] (replicate 7 (Fin 0)))),
      dist_sample = (\<lambda>d k. d),
      kl_divergence = (\<lambda>pr pp. Inr (Tensor [1] [Fin 2]))\<rparr>"

definition example_st :: "unit state" where
  "example_st =
     \<lparr>params = (), kl_beta = Fin (1 / 2), modality_scope = ''vis'', grad_enabled = True,
      calls = [], rng = 0, logged = []\<rparr>"

text \<open>
  A modality batch of one sequence of one step: a one-pixel image, no depth, one
  proprioceptive value, and a seven-entry action whose gripper entry is given.
\<close>

definition example_batch :: "real \<Rightarrow> string option \<Rightarrow> string dataset_batch" where
  "example_batch gripper instruction =
     \<lparr>rgb_obs = [(''rgb_static'', Tensor [1, 1, 1, 1, 1] [Fin 0])],
      depth_obs = [],
      robot_obs = Tensor [1, 1, 1] [Fin 0],
      actions = Tensor [1, 1, 7] [Fin 0, Fin 0, Fin 0, Fin 0, Fin 0, Fin 0, Fin gripper],
      lang = instruction,
      idx = Tensor [1] [Fin 0]\<rparr>"

text \<open>The perceptual embedding and the latent goal of that batch under these sub-networks.\<close>

definition example_emb :: tensor where
  "example_emb = Tensor [1, 1, 2] [Fin 0, Fin 0]"

definition example_goal :: tensor where
  "example_goal = Tensor [1, 1] [Fin 0]"

text \<open>
  What one iteration of the validation loop stores for the example batch (gripper
  entry 1) under the example sub-networks.
\<close>

definition example_val_output :: "string \<Rightarrow> (string \<times> out_value) list" where
  "example_val_output name =
     [(''val_action_loss_pp_'' @ name, OutScalar (Fin 1)),
      (''sampled_plan_pp_'' @ name, OutTensor (Tensor [1, 1] [Fin 0])),
      (''val_action_loss_pr_'' @ name, OutScalar (Fin 1)),
      (''sampled_plan_pr_'' @ name, OutTensor (Tensor [1, 1] [Fin 0])),
      (''kl_loss_'' @ name, OutScalar (Fin 1)),
      (''mae_pp_'' @ name, OutTensor (Tensor [1, 6] [Fin 0, Fin 0, Fin 0, Fin 0, Fin 0, Fin 0])),
      (''mae_pr_'' @ name, OutTensor (Tensor [1, 6] [Fin 0, Fin 0, Fin 0, Fin 0, Fin 0, Fin 0])),
      (''gripper_sr_pp'' @ name, OutScalar (Fin 1)),
      (''gripper_sr_pr'' @ name, OutScalar (Fin 1)),
      (''idx_'' @ name, OutTensor (Tensor [1] [Fin 0]))]"

text \<open>
  The same sub-networks with a recognition network, a decoder loss and a KL divergence
  that tell the two plan distributions apart: the recognition distribution is the
  tensor \<open>[[1]]\<close> (the proposal distribution stays \<open>[[0]]\<close>), the decoder's loss is the
  first entry of the sampled plan, and the KL divergence from \<open>p\<close> to \<open>q\<close> is the
  one-element batch holding twice the first entry of \<open>p\<close> plus the first entry of \<open>q\<close>.
\<close>

definition first_entry :: "tensor \<Rightarrow> error + scalar" where
  "first_entry t = (case data t of [] \<Rightarrow> Inl RuntimeError | x # _ \<Rightarrow> Inr x)"

definition telling_nets :: "(unit, tensor, string) nets" where
  "telling_nets =
     example_nets
       \<lparr>plan_recognition_net := (\<lambda>p t. Inr (Tensor [1, 1] [Fin 1])),
        decoder_loss := (\<lambda>p plan emb goal acts. first_entry plan),
        kl_divergence := (\<lambda>p q.
          ebind (first_entry p) (\<lambda>a.
          ebind (first_entry q) (\<lambda>b.
          Inr (Tensor [1] [sadd (smul (Fin 2) a) b]))))\<rparr>"

definition example_pair :: "(string \<times> string dataset_batch) list" where
  "example_pair = [(''vis'', example_batch 1 None), (''lang'', example_batch 1 (Some ''push''))]"

definition example_pair_results :: "(scalar \<times> scalar \<times> scalar \<times> tensor \<times> tensor) list" where
  "example_pair_results =
     [(Fin 1, Fin 1, Fin 2, Tensor [1, 1] [Fin 0], Tensor [1, 1] [Fin 1]),
      (Fin 1, Fin 1, Fin 2, Tensor [1, 1] [Fin 0], Tensor [1, 1] [Fin 1])]"
section \<open>Properties of the input-size resolution\<close>

lemma rectangular_ranges: "rectangular (ranges rs)"
  by (cases rs) (auto simp: rectangular_def ranges_def list_all_iff)

lemma compute_n_state_obs_ranges:
  "compute_n_state_obs (ranges rs) = Inr (\<Sum>(s, e)\<leftarrow>rs. e - s)"
proof -
  have "map (\<lambda>r. sum_list (np_diff r)) (ranges rs) = map (\<lambda>(s, e). e - s) rs"
    by (induction rs) (auto simp: ranges_def np_diff_def)
  then show ?thesis
    by (simp add: compute_n_state_obs_def rectangular_ranges)
qed

lemma adjust_gripper_n_state_obs:
  "adjust_gripper c = Inr c' \<Longrightarrow>
     plan_proposal c' = plan_proposal c \<and> plan_recognition c' = plan_recognition c \<and>
     visual_goal c' = visual_goal c \<and> decoder c' = decoder c \<and>
     vision_static c' = vision_static c \<and> depth_static c' = depth_static c \<and>
     depth_gripper c' = depth_gripper c \<and> tactile c' = tactile c \<and>
     proprio_state c' = proprio_state c"
  by (auto simp: adjust_gripper_def split: option.splits if_splits)

lemma adjust_static_frame:
  "plan_proposal (adjust_static c) = plan_proposal c \<and>
   plan_recognition (adjust_static c) = plan_recognition c \<and>
   visual_goal (adjust_static c) = visual_goal c \<and> decoder (adjust_static c) = decoder c \<and>
   vision_gripper (adjust_static c) = vision_gripper c \<and>
   depth_static (adjust_static c) = depth_static c \<and>
   depth_gripper (adjust_static c) = depth_gripper c \<and> tactile (adjust_static c) = tactile c \<and>
   proprio_state (adjust_static c) = proprio_state c"
  by (auto simp: adjust_static_def split: option.splits)

lemma set_visual_features_n_state_obs:
  "n_state_obs (plan_proposal (set_visual_features v c)) = n_state_obs (plan_proposal c)"
  "n_state_obs (plan_recognition (set_visual_features v c)) = n_state_obs (plan_recognition c)"
  "n_state_obs (visual_goal (set_visual_features v c)) = n_state_obs (visual_goal c)"
  "n_state_obs (decoder (set_visual_features v c)) = n_state_obs (decoder c)"
  by (simp_all add: set_visual_features_def)

lemma set_n_state_obs_sel:
  "n_state_obs (plan_proposal (set_n_state_obs n c)) = n"
  "n_state_obs (plan_recognition (set_n_state_obs n c)) = n"
  "n_state_obs (visual_goal (set_n_state_obs n c)) = n"
  "n_state_obs (decoder (set_n_state_obs n c)) = n"
  by (simp_all add: set_n_state_obs_def)

lemma snd_setup_input_sizes_Inl:
  assumes "compute_n_state_obs (keep_indices (proprio_state c)) = Inr n"
    and "adjust_gripper (set_n_state_obs n c) = Inl e"
  shows "setup_input_sizes c = (Inl e, set_n_state_obs n c)"
  using assms by (simp add: setup_input_sizes_def Let_def)

lemma snd_setup_input_sizes_Inr:
  assumes "compute_n_state_obs (keep_indices (proprio_state c)) = Inr n"
    and "adjust_gripper (set_n_state_obs n c) = Inr c2"
  shows "\<exists>v. setup_input_sizes c = (Inr (), set_visual_features v (adjust_static c2))"
  using assms by (simp add: setup_input_sizes_def Let_def) blast

lemma setup_input_sizes_n_state_obs:
  assumes "compute_n_state_obs (keep_indices (proprio_state c)) = Inr n"
  shows "n_state_obs (plan_proposal (snd (setup_input_sizes c))) = n
       \<and> n_state_obs (plan_recognition (snd (setup_input_sizes c))) = n
       \<and> n_state_obs (visual_goal (snd (setup_input_sizes c))) = n
       \<and> n_state_obs (decoder (snd (setup_input_sizes c))) = n"
proof (cases "adjust_gripper (set_n_state_obs n c)")
  case (Inl e)
  show ?thesis
    by (simp add: snd_setup_input_sizes_Inl [OF assms Inl] set_n_state_obs_sel)
next
  case (Inr c2)
  from snd_setup_input_sizes_Inr [OF assms Inr]
  obtain v where v: "setup_input_sizes c = (Inr (), set_visual_features v (adjust_static c2))" ..
  show ?thesis
    using adjust_gripper_n_state_obs [OF Inr] adjust_static_frame [of c2]
    by (simp add: v set_visual_features_n_state_obs set_n_state_obs_sel)
qed

lemma set_n_state_obs_frame:
  "vision_static (set_n_state_obs n c) = vision_static c"
  "depth_static (set_n_state_obs n c) = depth_static c"
  "vision_gripper (set_n_state_obs n c) = vision_gripper c"
  "depth_gripper (set_n_state_obs n c) = depth_gripper c"
  "proprio_state (set_n_state_obs n c) = proprio_state c"
  "tactile (set_n_state_obs n c) = tactile c"
  by (simp_all add: set_n_state_obs_def)

lemma set_visual_features_frame:
  "vision_static (set_visual_features v c) = vision_static c"
  "depth_static (set_visual_features v c) = depth_static c"
  "vision_gripper (set_visual_features v c) = vision_gripper c"
  "depth_gripper (set_visual_features v c) = depth_gripper c"
  "proprio_state (set_visual_features v c) = proprio_state c"
  "tactile (set_visual_features v c) = tactile c"
  by (simp_all add: set_visual_features_def)

lemma set_n_state_obs_idem: "set_n_state_obs n (set_n_state_obs n c) = set_n_state_obs n c"
  by (simp add: set_n_state_obs_def)

lemma setup_input_sizes_error_repeats:
  assumes "fst (setup_input_sizes c) = Inl e"
  shows "setup_input_sizes (snd (setup_input_sizes c)) = setup_input_sizes c"
proof (cases "compute_n_state_obs (keep_indices (proprio_state c))")
  case (Inl e')
  then have "setup_input_sizes c = (Inl e', c)"
    by (simp add: setup_input_sizes_def)
  then show ?thesis by simp
next
  case n: (Inr n)
  show ?thesis
  proof (cases "adjust_gripper (set_n_state_obs n c)")
    case (Inl e')
    have s: "setup_input_sizes c = (Inl e', set_n_state_obs n c)"
      by (rule snd_setup_input_sizes_Inl [OF n Inl])
    have n': "compute_n_state_obs (keep_indices (proprio_state (set_n_state_obs n c))) = Inr n"
      using n by (simp add: set_n_state_obs_frame)
    have "setup_input_sizes (set_n_state_obs n c) = (Inl e', set_n_state_obs n c)"
      using snd_setup_input_sizes_Inl [OF n'] Inl by (simp add: set_n_state_obs_idem)
    then show ?thesis by (simp add: s)
  next
    case (Inr c2)
    from snd_setup_input_sizes_Inr [OF n Inr] assms show ?thesis by auto
  qed
qed

lemma adjust_static_vision_static:
  "vision_static (adjust_static c) =
     (case depth_static c of
        None \<Rightarrow> vision_static c
      | Some ds \<Rightarrow>
          if num_c (vision_static c) < 4
          then (vision_static c)\<lparr>num_c := num_c (vision_static c) + num_c ds\<rparr>
          else vision_static c)"
  by (simp add: adjust_static_def split: option.splits)

lemma adjust_gripper_vision_gripper:
  "adjust_gripper c = Inr c' \<Longrightarrow>
     vision_gripper c' =
       (case depth_gripper c of
          None \<Rightarrow> vision_gripper c
        | Some dg \<Rightarrow>
            map_option (\<lambda>vg. if num_c vg < 4 then vg\<lparr>num_c := num_c vg + num_c dg\<rparr> else vg)
              (vision_gripper c))"
  by (auto simp: adjust_gripper_def split: option.splits if_splits)

text \<open>What a call leaves in the two vision-encoder configurations.\<close>

lemma setup_input_sizes_returns:
  assumes "fst (setup_input_sizes c) = Inr u"
  shows "vision_static (snd (setup_input_sizes c)) =
           (case depth_static c of
              None \<Rightarrow> vision_static c
            | Some ds \<Rightarrow>
                if num_c (vision_static c) < 4
                then (vision_static c)\<lparr>num_c := num_c (vision_static c) + num_c ds\<rparr>
                else vision_static c)"
    and "vision_gripper (snd (setup_input_sizes c)) =
           (case depth_gripper c of
              None \<Rightarrow> vision_gripper c
            | Some dg \<Rightarrow>
                map_option (\<lambda>vg. if num_c vg < 4 then vg\<lparr>num_c := num_c vg + num_c dg\<rparr> else vg)
                  (vision_gripper c))"
    and "depth_static (snd (setup_input_sizes c)) = depth_static c"
    and "depth_gripper (snd (setup_input_sizes c)) = depth_gripper c"
proof -
  obtain n where n: "compute_n_state_obs (keep_indices (proprio_state c)) = Inr n"
    using assms by (cases "compute_n_state_obs (keep_indices (proprio_state c))")
      (simp_all add: setup_input_sizes_def)
  obtain c2 where c2: "adjust_gripper (set_n_state_obs n c) = Inr c2"
    using assms snd_setup_input_sizes_Inl [OF n]
    by (cases "adjust_gripper (set_n_state_obs n c)") simp_all
  from snd_setup_input_sizes_Inr [OF n c2]
  obtain v where v: "setup_input_sizes c = (Inr (), set_visual_features v (adjust_static c2))" ..
  note g = adjust_gripper_n_state_obs [OF c2] adjust_gripper_vision_gripper [OF c2]
  show "vision_static (snd (setup_input_sizes c)) =
           (case depth_static c of
              None \<Rightarrow> vision_static c
            | Some ds \<Rightarrow>
                if num_c (vision_static c) < 4
                then (vision_static c)\<lparr>num_c := num_c (vision_static c) + num_c ds\<rparr>
                else vision_static c)"
    using g by (simp add: v set_visual_features_frame adjust_static_vision_static
        set_n_state_obs_frame split: option.splits)
  show "vision_gripper (snd (setup_input_sizes c)) =
           (case depth_gripper c of
              None \<Rightarrow> vision_gripper c
            | Some dg \<Rightarrow>
                map_option (\<lambda>vg. if num_c vg < 4 then vg\<lparr>num_c := num_c vg + num_c dg\<rparr> else vg)
                  (vision_gripper c))"
    using g adjust_static_frame [of c2]
    by (simp add: v set_visual_features_frame set_n_state_obs_frame split: option.splits)
  show "depth_static (snd (setup_input_sizes c)) = depth_static c"
    using g adjust_static_frame [of c2]
    by (simp add: v set_visual_features_frame set_n_state_obs_frame)
  show "depth_gripper (snd (setup_input_sizes c)) = depth_gripper c"
    using g adjust_static_frame [of c2]
    by (simp add: v set_visual_features_frame set_n_state_obs_frame)
qed

lemma setup_input_sizes_raises:
  assumes "fst (setup_input_sizes c) = Inl e"
  shows "vision_static (snd (setup_input_sizes c)) = vision_static c"
    and "vision_gripper (snd (setup_input_sizes c)) = vision_gripper c"
proof -
  have "snd (setup_input_sizes c) = c
      \<or> (\<exists>n. snd (setup_input_sizes c) = set_n_state_obs n c)"
  proof (cases "compute_n_state_obs (keep_indices (proprio_state c))")
    case (Inl e')
    then show ?thesis by (simp add: setup_input_sizes_def)
  next
    case n: (Inr n)
    show ?thesis
    proof (cases "adjust_gripper (set_n_state_obs n c)")
      case (Inl e')
      from snd_setup_input_sizes_Inl [OF n Inl] show ?thesis by auto
    next
      case (Inr c2)
      from snd_setup_input_sizes_Inr [OF n Inr] assms show ?thesis by auto
    qed
  qed
  then show "vision_static (snd (setup_input_sizes c)) = vision_static c"
    and "vision_gripper (snd (setup_input_sizes c)) = vision_gripper c"
    by (auto simp: set_n_state_obs_frame)
qed

lemma static_channels_stable:
  assumes "4 \<le> num_c (vision_static c)"
  shows "vision_static (snd (setup_input_sizes c)) = vision_static c"
proof (cases "fst (setup_input_sizes c)")
  case (Inl e)
  then show ?thesis by (rule setup_input_sizes_raises)
next
  case (Inr u)
  from setup_input_sizes_returns(1) [OF Inr] assms show ?thesis
    by (simp split: option.splits)
qed

lemma gripper_channels_stable:
  assumes "vision_gripper c = Some vg" and "4 \<le> num_c vg"
  shows "vision_gripper (snd (setup_input_sizes c)) = vision_gripper c"
proof (cases "fst (setup_input_sizes c)")
  case (Inl e)
  then show ?thesis by (rule setup_input_sizes_raises)
next
  case (Inr u)
  from setup_input_sizes_returns(2) [OF Inr] assms show ?thesis
    by (simp split: option.splits)
qed

text \<open>
  Claim C6. For every list of \<open>keep_indices\<close> ranges \<open>[start, end]\<close>, the value
  \<open>n_state_obs\<close> that \<open>setup_input_sizes\<close> computes is the sum over the ranges of
  \<open>end - start\<close>, and that value is what the call leaves in the configurations of the
  plan-proposal network, the plan-recognition network, the visual-goal encoder and the
  action decoder.
\<close>

theorem n_state_obs_is_sum_of_range_widths:
  assumes "keep_indices (proprio_state c) = ranges rs"
  shows "compute_n_state_obs (keep_indices (proprio_state c)) = Inr (\<Sum>(s, e)\<leftarrow>rs. e - s)
       \<and> n_state_obs (plan_proposal (snd (setup_input_sizes c))) = (\<Sum>(s, e)\<leftarrow>rs. e - s)
       \<and> n_state_obs (plan_recognition (snd (setup_input_sizes c))) = (\<Sum>(s, e)\<leftarrow>rs. e - s)
       \<and> n_state_obs (visual_goal (snd (setup_input_sizes c))) = (\<Sum>(s, e)\<leftarrow>rs. e - s)
       \<and> n_state_obs (decoder (snd (setup_input_sizes c))) = (\<Sum>(s, e)\<leftarrow>rs. e - s)"
proof -
  have n: "compute_n_state_obs (keep_indices (proprio_state c)) = Inr (\<Sum>(s, e)\<leftarrow>rs. e - s)"
    using assms by (simp add: compute_n_state_obs_ranges)
  from n setup_input_sizes_n_state_obs [OF n] show ?thesis
    by simp
qed

text \<open>The example of the claim: the ranges \<open>[[0,3],[3,6],[7,8]]\<close> give 7.\<close>

theorem n_state_obs_is_sum_of_range_widths_witness:
  "keep_indices (proprio_state example_configs) = ranges [(0, 3), (3, 6), (7, 8)]
   \<and> compute_n_state_obs (keep_indices (proprio_state example_configs)) = Inr 7
   \<and> n_state_obs (plan_proposal (snd (setup_input_sizes example_configs))) = 7
   \<and> n_state_obs (plan_recognition (snd (setup_input_sizes example_configs))) = 7
   \<and> n_state_obs (visual_goal (snd (setup_input_sizes example_configs))) = 7
   \<and> n_state_obs (decoder (snd (setup_input_sizes example_configs))) = 7"
proof -
  have h: "keep_indices (proprio_state example_configs) = ranges [(0, 3), (3, 6), (7, 8)]"
    by (simp add: example_configs_def ranges_def)
  show ?thesis
    using h n_state_obs_is_sum_of_range_widths [OF h] by simp
qed

text \<open>
  Claim C8. A second call of \<open>setup_input_sizes\<close> on the configurations the first call
  left does not increment a channel count again: for the static and for the gripper
  vision encoder, when the channel count starts at the RGB-only 3 and the paired depth
  encoder has at least one channel, the count after two calls is the count after one
  (which is 3 plus the depth channels when the first call returns).
\<close>

theorem setup_input_sizes_no_double_increment:
  "(num_c (vision_static c) = 3 \<and> depth_static c = Some ds \<and> 1 \<le> num_c ds \<longrightarrow>
      num_c (vision_static (snd (setup_input_sizes (snd (setup_input_sizes c))))) =
      num_c (vision_static (snd (setup_input_sizes c))) \<and>
      (fst (setup_input_sizes c) = Inr () \<longrightarrow>
         num_c (vision_static (snd (setup_input_sizes c))) = 3 + num_c ds))
   \<and> (vision_gripper c = Some vg \<and> num_c vg = 3 \<and> depth_gripper c = Some dg \<and> 1 \<le> num_c dg \<longrightarrow>
      map_option num_c (vision_gripper (snd (setup_input_sizes (snd (setup_input_sizes c))))) =
      map_option num_c (vision_gripper (snd (setup_input_sizes c))) \<and>
      (fst (setup_input_sizes c) = Inr () \<longrightarrow>
         map_option num_c (vision_gripper (snd (setup_input_sizes c))) = Some (3 + num_c dg)))"
proof (cases "fst (setup_input_sizes c)")
  case (Inl e)
  from setup_input_sizes_error_repeats [OF Inl] Inl show ?thesis by simp
next
  case (Inr u)
  note r = setup_input_sizes_returns [OF Inr]
  have static: "num_c (vision_static (snd (setup_input_sizes (snd (setup_input_sizes c))))) =
      num_c (vision_static (snd (setup_input_sizes c))) \<and>
      num_c (vision_static (snd (setup_input_sizes c))) = 3 + num_c ds"
    if h: "num_c (vision_static c) = 3" "depth_static c = Some ds" "1 \<le> num_c ds"
  proof -
    have a: "num_c (vision_static (snd (setup_input_sizes c))) = 3 + num_c ds"
      using r(1) h by simp
    with h have "4 \<le> num_c (vision_static (snd (setup_input_sizes c)))" by simp
    from static_channels_stable [OF this] a show ?thesis by simp
  qed
  have gripper: "map_option num_c (vision_gripper (snd (setup_input_sizes (snd (setup_input_sizes c))))) =
      map_option num_c (vision_gripper (snd (setup_input_sizes c))) \<and>
      map_option num_c (vision_gripper (snd (setup_input_sizes c))) = Some (3 + num_c dg)"
    if h: "vision_gripper c = Some vg" "num_c vg = 3" "depth_gripper c = Some dg" "1 \<le> num_c dg"
  proof -
    have a: "vision_gripper (snd (setup_input_sizes c)) = Some (vg\<lparr>num_c := 3 + num_c dg\<rparr>)"
      using r(2) h by simp
    have "4 \<le> num_c (vg\<lparr>num_c := 3 + num_c dg\<rparr>)" using h by simp
    from gripper_channels_stable [OF a this] a show ?thesis by simp
  qed
  from static gripper show ?thesis by blast
qed

theorem setup_input_sizes_no_double_increment_witness:
  "num_c (vision_static example_configs) = 3 \<and> depth_static example_configs = Some depth_cfg
   \<and> 1 \<le> num_c depth_cfg
   \<and> vision_gripper example_configs = Some rgb_cfg \<and> num_c rgb_cfg = 3
   \<and> depth_gripper example_configs = Some depth_cfg
   \<and> fst (setup_input_sizes example_configs) = Inr ()
   \<and> num_c (vision_static (snd (setup_input_sizes example_configs))) = 4
   \<and> num_c (vision_static (snd (setup_input_sizes (snd (setup_input_sizes example_configs))))) = 4
   \<and> map_option num_c (vision_gripper (snd (setup_input_sizes example_configs))) = Some 4
   \<and> map_option num_c
        (vision_gripper (snd (setup_input_sizes (snd (setup_input_sizes example_configs))))) = Some 4"
proof -
  have h: "num_c (vision_static example_configs) = 3" "depth_static example_configs = Some depth_cfg"
    "1 \<le> num_c depth_cfg" "vision_gripper example_configs = Some rgb_cfg" "num_c rgb_cfg = 3"
    "depth_gripper example_configs = Some depth_cfg"
    by (simp_all add: example_configs_def rgb_cfg_def depth_cfg_def)
  have ok: "fst (setup_input_sizes example_configs) = Inr ()"
    by (simp add: setup_input_sizes_def example_configs_def compute_n_state_obs_def
        rectangular_def adjust_gripper_def rgb_cfg_def depth_cfg_def set_n_state_obs_def Let_def)
  have d: "num_c depth_cfg = 1" by (simp add: depth_cfg_def)
  show ?thesis
    using h ok d
      setup_input_sizes_no_double_increment [of example_configs depth_cfg rgb_cfg depth_cfg]
    by simp
qed

text \<open>
  Claim C10. With a depth-encoder configuration for the gripper camera and no
  gripper vision-encoder configuration, \<open>setup_input_sizes\<close> raises: AttributeError from
  the read of \<open>vision_gripper.num_c\<close>, unless the computation of \<open>n_state_obs\<close> has
  raised before. The constructor \<open>__init__\<close> leaves with the same exception, so no
  orchestrator is constructed.
\<close>

theorem depth_gripper_without_vision_gripper_raises:
  assumes "vision_gripper c = None" and "depth_gripper c = Some dg"
  shows "fst (setup_input_sizes c) =
           Inl (case compute_n_state_obs (keep_indices (proprio_state c)) of
                  Inl e \<Rightarrow> e | Inr n \<Rightarrow> AttributeError)
       \<and> init instantiate c =
           Inl (case compute_n_state_obs (keep_indices (proprio_state c)) of
                  Inl e \<Rightarrow> e | Inr n \<Rightarrow> AttributeError)"
proof (cases "compute_n_state_obs (keep_indices (proprio_state c))")
  case (Inl e)
  then have "setup_input_sizes c = (Inl e, c)"
    by (simp add: setup_input_sizes_def)
  with Inl show ?thesis by (simp add: init_def)
next
  case (Inr n)
  have "adjust_gripper (set_n_state_obs n c) = Inl AttributeError"
    using assms by (simp add: adjust_gripper_def set_n_state_obs_frame)
  from snd_setup_input_sizes_Inl [OF Inr this] Inr show ?thesis
    by (simp add: init_def)
qed

theorem depth_gripper_without_vision_gripper_raises_witness:
  "vision_gripper depth_only_gripper_configs = None
   \<and> depth_gripper depth_only_gripper_configs = Some depth_cfg
   \<and> fst (setup_input_sizes depth_only_gripper_configs) = Inl AttributeError
   \<and> init (\<lambda>c. Inr c) depth_only_gripper_configs = (Inl AttributeError :: error + configs)"
proof -
  have h: "vision_gripper depth_only_gripper_configs = None"
    "depth_gripper depth_only_gripper_configs = Some depth_cfg"
    by (simp_all add: depth_only_gripper_configs_def example_configs_def)
  have n: "compute_n_state_obs (keep_indices (proprio_state depth_only_gripper_configs)) = Inr 7"
    by (simp add: depth_only_gripper_configs_def example_configs_def compute_n_state_obs_def
        rectangular_def np_diff_def)
  show ?thesis
    using h n depth_gripper_without_vision_gripper_raises [OF h, of "\<lambda>c. Inr c"]
    by simp
qed

section \<open>Properties of the embedding and of the inference entry points\<close>

lemma seq_bind_lift_Inl [simp]: "seq_bind (lift (Inl e)) f st = (Inl e, st)"
  by (simp add: seq_bind_def lift_def)

lemma seq_bind_lift_Inr [simp]: "seq_bind (lift (Inr x)) f st = f x st"
  by (simp add: seq_bind_def lift_def)

lemma seq_bind_ret [simp]: "seq_bind (ret x) f st = f x st"
  by (simp add: seq_bind_def ret_def)

lemma seq_bind_lift: "seq_bind (lift r) f st = (case r of Inl e \<Rightarrow> (Inl e, st) | Inr x \<Rightarrow> f x st)"
  by (cases r) simp_all

lemma visual_embedding_PyList:
  "visual_embedding N (PyList xs) depth_imgs st = (Inl TypeError, st)"
  by (simp add: visual_embedding_def)

lemma no_grad_visual_embedding_PyList:
  "no_grad (seq_bind (visual_embedding N (PyList xs) depth_imgs) f) st = (Inl TypeError, st)"
  by (simp add: no_grad_def seq_bind_def visual_embedding_PyList)

lemma predict_with_plan_frame:
  "snd (predict_with_plan N curr_imgs curr_depths curr_state latent_goal sampled_plan st) = st"
  by (simp add: predict_with_plan_def seq_bind_lift no_grad_visual_embedding_PyList
      split: sum.splits)

lemma get_pp_plan_lang_frame:
  "snd (get_pp_plan_lang N curr_imgs curr_depths curr_state goal_lang st) = st"
  by (simp add: get_pp_plan_lang_def seq_bind_lift no_grad_visual_embedding_PyList
      split: sum.splits)

lemma get_pp_plan_vision_frame:
  "snd (get_pp_plan_vision N curr_imgs curr_depths goal_imgs goal_depths curr_state goal_state st) = st"
  by (simp add: get_pp_plan_vision_def seq_bind_lift no_grad_visual_embedding_PyList lift_def
      split: sum.splits)

lemma get_pp_plan_vision_raises:
  "\<exists>e. fst (get_pp_plan_vision N curr_imgs curr_depths goal_imgs goal_depths curr_state goal_state st) = Inl e"
  by (simp add: get_pp_plan_vision_def seq_bind_lift no_grad_visual_embedding_PyList lift_def
      split: sum.splits)

lemma cat_pair_example_img:
  "cat_pair (example_img, example_img) = Inr (Tensor [1, 2, 3, 2, 2] (replicate 24 (Fin 0)))"
  by code_simp

lemma cat_pair_example_state:
  "cat_pair (example_state, example_state) = Inr (Tensor [1, 2, 8] (replicate 16 (Fin 0)))"
  by code_simp

text \<open>
  Claim C2. A depth mapping with a \<open>depth_static\<close> entry is to contribute that entry
  as an extra channel of the static stream (and \<open>depth_gripper\<close> likewise for the
  gripper stream). The code tests the depth mapping for the key and then reads the key
  from the image mapping: with the depth tensor where the claim puts it, in the depth
  mapping only, the call leaves with KeyError and no encoder runs.
\<close>

theorem visual_embedding_reads_depth_from_imgs:
  "visual_embedding N (PyDict [(''rgb_static'', rgb)]) (PyDict [(''depth_static'', d)]) st
     = (Inl KeyError, st)
   \<and> visual_embedding N (PyDict [(''rgb_static'', rgb), (''rgb_gripper'', g)])
       (PyDict [(''depth_gripper'', d)]) st = (Inl KeyError, st)"
  by (simp add: visual_embedding_def getitem_if_in_def ebind_def)

text \<open>
  Claim C5. None of the three inference entry points changes the trainable
  parameters, none calls the plan-recognition network, and no sub-network is called with
  gradient tracking on.
\<close>

theorem inference_entry_points_frame:
  "params (snd (predict_with_plan N curr_imgs curr_depths curr_state latent_goal sampled_plan st))
     = params st
   \<and> PlanRecognition \<notin> fst ` set (drop (length (calls st))
        (calls (snd (predict_with_plan N curr_imgs curr_depths curr_state latent_goal sampled_plan st))))
   \<and> True \<notin> snd ` set (drop (length (calls st))
        (calls (snd (predict_with_plan N curr_imgs curr_depths curr_state latent_goal sampled_plan st))))
   \<and> params (snd (get_pp_plan_vision N curr_imgs curr_depths goal_imgs goal_depths curr_state goal_state st))
     = params st
   \<and> PlanRecognition \<notin> fst ` set (drop (length (calls st))
        (calls (snd (get_pp_plan_vision N curr_imgs curr_depths goal_imgs goal_depths curr_state goal_state st))))
   \<and> True \<notin> snd ` set (drop (length (calls st))
        (calls (snd (get_pp_plan_vision N curr_imgs curr_depths goal_imgs goal_depths curr_state goal_state st))))
   \<and> params (snd (get_pp_plan_lang N curr_imgs curr_depths curr_state goal_lang st)) = params st
   \<and> PlanRecognition \<notin> fst ` set (drop (length (calls st))
        (calls (snd (get_pp_plan_lang N curr_imgs curr_depths curr_state goal_lang st))))
   \<and> True \<notin> snd ` set (drop (length (calls st))
        (calls (snd (get_pp_plan_lang N curr_imgs curr_depths curr_state goal_lang st))))"
  by (simp add: predict_with_plan_frame get_pp_plan_vision_frame get_pp_plan_lang_frame)

text \<open>
  Claim C7. With current and goal lists of equal lengths \<open>get_pp_plan_vision\<close> is to
  return a sampled plan and the latent goal. It hands Python lists to
  \<open>visual_embedding\<close>, whose first statement indexes its argument with a string: the
  call leaves with TypeError, here for one image, no depth image and a state.
\<close>

theorem get_pp_plan_vision_equal_lengths_raises:
  "get_pp_plan_vision N [example_img] [] [example_img] [] example_state example_state st
     = (Inl TypeError, st)"
  by (simp add: get_pp_plan_vision_def cat_pair_example_img cat_pair_example_state
      ebind_def no_grad_visual_embedding_PyList)

text \<open>
  Claim C9. With the goal inputs identical to the current inputs, the latent goal that
  \<open>get_pp_plan_vision\<close> returns is to be the visual-goal encoder's output on the embedding
  of that observation. The call returns no latent goal: it always raises, and leaves
  the state as it was, so the visual-goal encoder is not called.
\<close>

theorem get_pp_plan_vision_identical_inputs_no_goal:
  "(\<exists>e. fst (get_pp_plan_vision N imgs depths imgs depths state state st) = Inl e)
   \<and> snd (get_pp_plan_vision N imgs depths imgs depths state state st) = st"
  using get_pp_plan_vision_raises [of N imgs depths imgs depths state state st]
    get_pp_plan_vision_frame [of N imgs depths imgs depths state state st]
  by simp

section \<open>Properties of the validation-time evaluation\<close>

lemma seq_bind_Inr_iff:
  "seq_bind m f st = (Inr r, st') \<longleftrightarrow> (\<exists>x st1. m st = (Inr x, st1) \<and> f x st1 = (Inr r, st'))"
  by (auto simp: seq_bind_def split: prod.splits sum.splits)

lemma lift_Inr_iff: "lift r st = (Inr x, st') \<longleftrightarrow> r = Inr x \<and> st' = st"
  by (auto simp: lift_def)

lemma ret_Inr_iff: "ret y st = (Inr x, st') \<longleftrightarrow> x = y \<and> st' = st"
  by (auto simp: ret_def)

lemma call_Inr_iff:
  "call n f st = (Inr x, st') \<longleftrightarrow>
     f (params st) = Inr x \<and> st' = st\<lparr>calls := calls st @ [(n, grad_enabled st)]\<rparr>"
  by (auto simp: call_def)

lemma draw_Inr_iff:
  "draw N d st = (Inr x, st') \<longleftrightarrow> x = dist_sample N d (rng st) \<and> st' = st\<lparr>rng := Suc (rng st)\<rparr>"
  by (auto simp: draw_def)

lemma log_Inr_iff:
  "log name v st = (Inr x, st') \<longleftrightarrow> st' = st\<lparr>logged := logged st @ [(name, v)]\<rparr>"
  by (auto simp: log_def)

lemma get_state_Inr_iff: "get_state st = (Inr x, st') \<longleftrightarrow> x = st \<and> st' = st"
  by (auto simp: get_state_def)

lemma ebind_Inr_iff: "ebind m f = Inr y \<longleftrightarrow> (\<exists>x. m = Inr x \<and> f x = Inr y)"
  by (cases m) (simp_all add: ebind_def)

lemmas run_Inr_iffs = seq_bind_Inr_iff lift_Inr_iff ret_Inr_iff call_Inr_iff draw_Inr_iff
  log_Inr_iff get_state_Inr_iff

lemma compute_kl_loss_Inr:
  assumes "compute_kl_loss N pr pp st = (Inr k, st')"
  shows "\<exists>kl. kl_divergence N pr pp = Inr kl \<and> k = smul (tensor_mean kl) (kl_beta st)"
    and "params st' = params st" and "kl_beta st' = kl_beta st"
    and "calls st' = calls st" and "grad_enabled st' = grad_enabled st"
    and "modality_scope st' = modality_scope st"
  using assms by (auto simp: compute_kl_loss_def run_Inr_iffs Let_def)

lemma ssum_foldl: "foldl sadd (Fin a) (map (\<lambda>b. if b then Fin 1 else Fin 0) bs)
   = Fin (a + real (length (filter (\<lambda>b. b) bs)))"
  by (induction bs arbitrary: a) (auto simp: algebra_simps)

lemma ssum_indicator:
  "ssum (map (\<lambda>x. if P x then Fin 1 else Fin 0) xs) = Fin (real (length (filter P xs)))"
proof -
  have "map (\<lambda>x. if P x then Fin 1 else Fin 0) xs = map (\<lambda>b. if b then Fin 1 else Fin 0) (map P xs)"
    by simp
  then have "ssum (map (\<lambda>x. if P x then Fin 1 else Fin 0) xs)
      = Fin (real (length (filter (\<lambda>b. b) (map P xs))))"
    unfolding ssum_def by (simp only: ssum_foldl) simp
  also have "length (filter (\<lambda>b. b) (map P xs)) = length (filter P xs)"
    by (induction xs) auto
  finally show ?thesis .
qed

lemma zip_map_sign:
  "zip xs (map f ys) = map (\<lambda>(x, y). (x, f y)) (zip xs ys)"
  by (induction xs ys rule: list_induct2') auto

lemma gripper_sr_eq:
  "gripper_sr gt g =
     (if shape gt = shape g then Inr (match_fraction prediction_binarized_match gt g)
      else Inl RuntimeError)"
proof -
  have m: "map (\<lambda>(x, y). if seq x y then Fin 1 else Fin 0) (zip (data gt) (map sign_of (data g)))
      = map (\<lambda>p. if (\<lambda>(x, y). prediction_binarized_match x y) p then Fin 1 else Fin 0)
          (zip (data gt) (data g))"
    by (simp add: zip_map_sign prediction_binarized_match_def split_def)
  have b: "binarize g = Tensor (shape g) (map sign_of (data g))"
    by (simp add: binarize_def sign_of_def)
  show ?thesis
    by (simp add: gripper_sr_def eq_float_def b ebind_def tensor_mean_def smean_def
        match_fraction_def m ssum_indicator)
qed

lemma fst_run_Inr: "fst p = Inr r \<Longrightarrow> \<exists>st'. p = (Inr r, st')"
  by (cases p) simp

lemma lmp_val_Inr:
  assumes "lmp_val N pe goal acts st = (Inr (spp, lpp, spr, lpr, kl, mpp, mpr, srpp, srpr), st')"
  shows "\<exists>app apr gpp gpr gt.
     decoder_loss_and_act N (params st) spp pe goal acts = Inr (lpp, app)
   \<and> decoder_loss_and_act N (params st) spr pe goal acts = Inr (lpr, apr)
   \<and> select_last acts = Inr gt \<and> select_last app = Inr gpp \<and> select_last apr = Inr gpr
   \<and> gripper_sr gt gpp = Inr srpp \<and> gripper_sr gt gpr = Inr srpr"
  using assms
  apply (simp add: lmp_val_def run_Inr_iffs split_def)
  apply (elim exE conjE)
  apply (drule compute_kl_loss_Inr(2))
  apply auto
  done

lemma match_fraction_binary_ground_truth:
  assumes "\<forall>x\<in>set (data gt). x = Fin 1 \<or> x = Fin (- 1)"
  shows "match_fraction prediction_binarized_match gt g = match_fraction both_binarized_match gt g"
proof -
  have "filter (\<lambda>(x, y). prediction_binarized_match x y) (zip (data gt) (data g))
      = filter (\<lambda>(x, y). both_binarized_match x y) (zip (data gt) (data g))"
  proof (rule filter_cong [OF refl])
    fix p assume "p \<in> set (zip (data gt) (data g))"
    then have "fst p \<in> set (data gt)" by (metis prod.collapse set_zip_leftD)
    with assms have "fst p = Fin 1 \<or> fst p = Fin (- 1)" by blast
    then have "sign_of (fst p) = fst p" by (auto simp: sign_of_def)
    then show "(case p of (x, y) \<Rightarrow> prediction_binarized_match x y)
        = (case p of (x, y) \<Rightarrow> both_binarized_match x y)"
      by (cases p) (simp add: prediction_binarized_match_def both_binarized_match_def)
  qed
  then show ?thesis by (simp add: match_fraction_def)
qed

lemma lmp_val_example_one:
  "fst (lmp_val example_nets example_emb example_goal (actions (example_batch 1 None)) example_st)
     = Inr (Tensor [1, 1] [Fin 0], Fin 1, Tensor [1, 1] [Fin 0], Fin 1, Fin 1,
            Tensor [1, 6] [Fin 0, Fin 0, Fin 0, Fin 0, Fin 0, Fin 0],
            Tensor [1, 6] [Fin 0, Fin 0, Fin 0, Fin 0, Fin 0, Fin 0], Fin 1, Fin 1)"
  by code_simp


text \<open>
  Claim C1, as the code has it. In \<open>lmp_val\<close> the gripper success rate of each branch is
  the fraction of the elements at which the predicted gripper action, binarized to
  \<open>+1\<close> (values above zero) or \<open>-1\<close> (all other values), equals the ground-truth gripper
  action as it is given: the ground truth is not binarized. Where every ground-truth
  gripper action is \<open>+1\<close> or \<open>-1\<close>, this is the fraction of matches after binarizing
  both. The predicted actions are those the decoder's loss-and-act returns for the
  branch's sampled plan, and the gripper action is the last entry of an action.
\<close>

theorem lmp_val_gripper_success_rate:
  assumes "fst (lmp_val N pe goal acts st)
             = Inr (spp, loss_pp, spr, loss_pr, kl, mae_pp, mae_pr, sr_pp, sr_pr)"
  shows "\<exists>act_pp act_pr g_pp g_pr gt.
       decoder_loss_and_act N (params st) spp pe goal acts = Inr (loss_pp, act_pp)
     \<and> decoder_loss_and_act N (params st) spr pe goal acts = Inr (loss_pr, act_pr)
     \<and> select_last acts = Inr gt \<and> select_last act_pp = Inr g_pp \<and> select_last act_pr = Inr g_pr
     \<and> sr_pp = match_fraction prediction_binarized_match gt g_pp
     \<and> sr_pr = match_fraction prediction_binarized_match gt g_pr
     \<and> ((\<forall>x\<in>set (data gt). x = Fin 1 \<or> x = Fin (- 1)) \<longrightarrow>
          sr_pp = match_fraction both_binarized_match gt g_pp
        \<and> sr_pr = match_fraction both_binarized_match gt g_pr)"
proof -
  from fst_run_Inr [OF assms] obtain st' where
    "lmp_val N pe goal acts st = (Inr (spp, loss_pp, spr, loss_pr, kl, mae_pp, mae_pr, sr_pp, sr_pr), st')" ..
  from lmp_val_Inr [OF this] obtain act_pp act_pr g_pp g_pr gt where
    d: "decoder_loss_and_act N (params st) spp pe goal acts = Inr (loss_pp, act_pp)"
       "decoder_loss_and_act N (params st) spr pe goal acts = Inr (loss_pr, act_pr)"
    and s: "select_last acts = Inr gt" "select_last act_pp = Inr g_pp" "select_last act_pr = Inr g_pr"
    and g: "gripper_sr gt g_pp = Inr sr_pp" "gripper_sr gt g_pr = Inr sr_pr"
    by blast
  from g have m: "sr_pp = match_fraction prediction_binarized_match gt g_pp"
    "sr_pr = match_fraction prediction_binarized_match gt g_pr"
    by (auto simp: gripper_sr_eq split: if_splits)
  from d s m show ?thesis
    using match_fraction_binary_ground_truth [of gt] by metis
qed


theorem lmp_val_gripper_success_rate_witness:
  "fst (lmp_val example_nets example_emb example_goal (actions (example_batch 1 None)) example_st)
     = Inr (Tensor [1, 1] [Fin 0], Fin 1, Tensor [1, 1] [Fin 0], Fin 1, Fin 1,
            Tensor [1, 6] [Fin 0, Fin 0, Fin 0, Fin 0, Fin 0, Fin 0],
            Tensor [1, 6] [Fin 0, Fin 0, Fin 0, Fin 0, Fin 0, Fin 0], Fin 1, Fin 1)
   \<and> (\<exists>g_pp g_pr gt.
         select_last (actions (example_batch 1 None)) = Inr gt
       \<and> (\<forall>x\<in>set (data gt). x = Fin 1 \<or> x = Fin (- 1))
       \<and> Fin 1 = match_fraction prediction_binarized_match gt g_pp
       \<and> Fin 1 = match_fraction prediction_binarized_match gt g_pr
       \<and> Fin 1 = match_fraction both_binarized_match gt g_pp
       \<and> Fin 1 = match_fraction both_binarized_match gt g_pr)"
proof -
  have gt: "select_last (actions (example_batch 1 None)) = Inr (Tensor [1, 1] [Fin 1])"
    by code_simp
  from lmp_val_gripper_success_rate [OF lmp_val_example_one]
  obtain act_pp act_pr g_pp g_pr gt' where
    s: "select_last (actions (example_batch 1 None)) = Inr gt'"
    and m: "Fin 1 = match_fraction prediction_binarized_match gt' g_pp"
      "Fin 1 = match_fraction prediction_binarized_match gt' g_pr"
    and b: "(\<forall>x\<in>set (data gt'). x = Fin 1 \<or> x = Fin (- 1)) \<longrightarrow>
          Fin 1 = match_fraction both_binarized_match gt' g_pp
        \<and> Fin 1 = match_fraction both_binarized_match gt' g_pr"
    by blast
  from s gt have g: "gt' = Tensor [1, 1] [Fin 1]" by simp
  then have "\<forall>x\<in>set (data gt'). x = Fin 1 \<or> x = Fin (- 1)" by simp
  with s m b lmp_val_example_one show ?thesis by blast
qed

text \<open>
  The claim as stated, with both sides binarized, fails where the ground truth is not
  \<open>+1\<close> or \<open>-1\<close>: with the gripper action \<open>1/2\<close> in the ground truth and in the
  decoder's prediction, the two match at every element after binarizing both (the
  fraction is 1), and \<open>lmp_val\<close> reports the success rate 0 for both branches.
\<close>

theorem lmp_val_gripper_sr_counterexample:
  "decoder_loss_and_act example_nets () (Tensor [1, 1] [Fin 0]) example_emb example_goal
       (actions (example_batch (1 / 2) None))
     = Inr (Fin 1, Tensor [1, 1, 7] [Fin 0, Fin 0, Fin 0, Fin 0, Fin 0, Fin 0, Fin (1 / 2)])
   \<and> select_last (Tensor [1, 1, 7] [Fin 0, Fin 0, Fin 0, Fin 0, Fin 0, Fin 0, Fin (1 / 2)])
     = Inr (Tensor [1, 1] [Fin (1 / 2)])
   \<and> select_last (actions (example_batch (1 / 2) None)) = Inr (Tensor [1, 1] [Fin (1 / 2)])
   \<and> match_fraction both_binarized_match (Tensor [1, 1] [Fin (1 / 2)]) (Tensor [1, 1] [Fin (1 / 2)])
       = Fin 1
   \<and> fst (lmp_val example_nets example_emb example_goal (actions (example_batch (1 / 2) None))
         example_st)
     = Inr (Tensor [1, 1] [Fin 0], Fin 1, Tensor [1, 1] [Fin 0], Fin 1, Fin 1,
            Tensor [1, 6] [Fin 0, Fin 0, Fin 0, Fin 0, Fin 0, Fin 0],
            Tensor [1, 6] [Fin 0, Fin 0, Fin 0, Fin 0, Fin 0, Fin 0], Fin 0, Fin 0)"
  by code_simp


section \<open>Properties of the training and validation steps\<close>

lemma preserves_ret: "preserves S (ret x)"
  by (simp add: preserves_def ret_def)

lemma preserves_lift: "preserves S (lift r)"
  by (simp add: preserves_def lift_def)

lemma preserves_get_state: "preserves S get_state"
  by (simp add: preserves_def get_state_def)

lemma preserves_log: "preserves S (log name v)"
  by (simp add: preserves_def log_def)

lemma preserves_draw: "preserves S (draw N d)"
  by (simp add: preserves_def draw_def)

lemma preserves_call: "n \<in> S \<Longrightarrow> preserves S (call n f)"
  by (simp add: preserves_def call_def)

lemma preserves_call_opt: "n \<in> S \<Longrightarrow> preserves S (call_opt n f x)"
  by (cases f) (simp_all add: call_opt_def preserves_lift preserves_call)

lemma preserves_bind:
  assumes m: "preserves S m" and f: "\<And>x. preserves S (f x)"
  shows "preserves S (seq_bind m f)"
  unfolding preserves_def
proof (intro allI)
  fix st
  obtain r st1 where r: "m st = (r, st1)" by (cases "m st")
  from m [unfolded preserves_def, rule_format, of st] r
  obtain new1 where 1: "params st1 = params st" "kl_beta st1 = kl_beta st"
    "grad_enabled st1 = grad_enabled st" "modality_scope st1 = modality_scope st"
    "calls st1 = calls st @ new1" "fst ` set new1 \<subseteq> S"
    by auto
  show "params (snd (seq_bind m f st)) = params st
         \<and> kl_beta (snd (seq_bind m f st)) = kl_beta st
         \<and> grad_enabled (snd (seq_bind m f st)) = grad_enabled st
         \<and> modality_scope (snd (seq_bind m f st)) = modality_scope st
         \<and> (\<exists>new. calls (snd (seq_bind m f st)) = calls st @ new \<and> fst ` set new \<subseteq> S)"
  proof (cases r)
    case (Inl e)
    with r 1 show ?thesis by (simp add: seq_bind_def)
  next
    case (Inr x)
    from f [of x, unfolded preserves_def, rule_format, of st1]
    obtain new2 where 2: "params (snd (f x st1)) = params st1" "kl_beta (snd (f x st1)) = kl_beta st1"
      "grad_enabled (snd (f x st1)) = grad_enabled st1"
      "modality_scope (snd (f x st1)) = modality_scope st1"
      "calls (snd (f x st1)) = calls st1 @ new2" "fst ` set new2 \<subseteq> S"
      by auto
    have "seq_bind m f st = f x st1" using r Inr by (simp add: seq_bind_def)
    with 1 2 show ?thesis by auto
  qed
qed

lemma preserves_case_prod:
  "(\<And>a b. preserves S (f a b)) \<Longrightarrow> preserves S (case_prod f p)"
  by (cases p) simp

lemma preserves_case_option:
  "preserves S a \<Longrightarrow> (\<And>x. preserves S (f x)) \<Longrightarrow> preserves S (case_option a f opt)"
  by (cases opt) simp_all

lemma preserves_if:
  "preserves S a \<Longrightarrow> preserves S b \<Longrightarrow> preserves S (if c then a else b)"
  by simp

lemma preserves_let: "(\<And>x. preserves S (f x)) \<Longrightarrow> preserves S (Let v f)"
  by (simp add: Let_def)

lemma preserves_mono: "preserves S m \<Longrightarrow> S \<subseteq> T \<Longrightarrow> preserves T m"
  unfolding preserves_def by (meson order_trans)

lemmas preserves_intros = preserves_bind preserves_ret preserves_lift preserves_get_state
  preserves_log preserves_draw preserves_call preserves_call_opt preserves_case_prod
  preserves_case_option preserves_if preserves_let

lemma preserves_embed_static:
  "preserves {VisionStatic, VisionGripper, Tactile} (embed_static N imgs depth)"
  unfolding embed_static_def by (intro preserves_intros) simp

lemma preserves_embed_gripper:
  "preserves {VisionStatic, VisionGripper, Tactile} (embed_gripper N enc imgs depth)"
  unfolding embed_gripper_def by (intro preserves_intros) simp

lemma preserves_embed_tactile:
  "preserves {VisionStatic, VisionGripper, Tactile} (embed_tactile N enc imgs)"
  unfolding embed_tactile_def by (intro preserves_intros) simp

lemma preserves_visual_embedding:
  "preserves {VisionStatic, VisionGripper, Tactile} (visual_embedding N imgs depth_imgs)"
  unfolding visual_embedding_def
  by (intro preserves_intros preserves_embed_static preserves_embed_gripper preserves_embed_tactile)

lemma preserves_compute_kl_loss: "preserves S (compute_kl_loss N pr pp)"
  unfolding compute_kl_loss_def by (intro preserves_intros)

lemma preserves_lmp_train:
  "preserves {PlanProposal, PlanRecognition, ActionDecoder} (lmp_train N pe g acts)"
  unfolding lmp_train_def by (intro preserves_intros preserves_compute_kl_loss) simp_all

lemma preserves_lmp_val:
  "preserves {PlanProposal, PlanRecognition, ActionDecoder} (lmp_val N pe g acts)"
  unfolding lmp_val_def by (intro preserves_intros preserves_compute_kl_loss) simp_all

lemma preserves_latent_goal_of:
  "preserves {VisualGoal, LanguageGoal} (latent_goal_of N pe db)"
  unfolding latent_goal_of_def by (intro preserves_intros) simp_all

lemma preservesD:
  assumes "preserves S m" and "m st = (r, st')"
  shows "params st' = params st" and "kl_beta st' = kl_beta st"
    and "grad_enabled st' = grad_enabled st" and "modality_scope st' = modality_scope st"
    and "\<exists>new. calls st' = calls st @ new \<and> fst ` set new \<subseteq> S"
  using assms(1) [unfolded preserves_def, rule_format, of st] assms(2) by simp_all

lemma set_modality_scope_Inr_iff:
  "set_modality_scope name st = (Inr x, st') \<longleftrightarrow> st' = st\<lparr>modality_scope := name\<rparr>"
  by (auto simp: set_modality_scope_def)

lemma lmp_train_Inr:
  assumes "lmp_train N pe g acts st = (Inr (kl, act, tot, pp, pr), st')"
  shows "kl = smul (kl_mean N pr pp) (kl_beta st)" and "tot = sadd act kl"
proof -
  from assms obtain st1 where k: "compute_kl_loss N pr pp st1 = (Inr kl, st')"
    and b: "kl_beta st1 = kl_beta st" and t: "tot = sadd act kl"
    by (auto simp: lmp_train_def run_Inr_iffs)
  from compute_kl_loss_Inr(1) [OF k] b show "kl = smul (kl_mean N pr pp) (kl_beta st)"
    by (auto simp: kl_mean_def)
  from t show "tot = sadd act kl" .
qed

lemma train_modality_Inr:
  assumes "train_modality N item st = (Inr (kl, act, tot, pp, pr), st')"
  shows "kl = smul (kl_mean N pr pp) (kl_beta st)" and "tot = sadd act kl"
    and "kl_beta st' = kl_beta st"
proof -
  obtain name db where item: "item = (name, db)" by (cases item)
  from assms [unfolded item train_modality_def]
  obtain ve st1 pe g st2 st3 where
    ve: "visual_embedding N (PyDict (rgb_obs db)) (PyDict (depth_obs db))
           (st\<lparr>modality_scope := name\<rparr>) = (Inr ve, st1)"
    and g: "latent_goal_of N pe db st1 = (Inr g, st2)"
    and l: "lmp_train N pe g (actions db) st2 = (Inr (kl, act, tot, pp, pr), st3)"
    and st': "kl_beta st' = kl_beta st3"
    by (auto simp: run_Inr_iffs set_modality_scope_Inr_iff)
  have b: "kl_beta st2 = kl_beta st"
    using preservesD(2) [OF preserves_visual_embedding ve]
      preservesD(2) [OF preserves_latent_goal_of g] by simp
  from lmp_train_Inr [OF l] b show "kl = smul (kl_mean N pr pp) (kl_beta st)" "tot = sadd act kl"
    by simp_all
  from preservesD(2) [OF preserves_lmp_train l] st' b show "kl_beta st' = kl_beta st" by simp
qed

lemma train_all_Inr:
  "train_all N batch st = (Inr rs, st') \<Longrightarrow>
     length rs = length batch \<and> kl_beta st' = kl_beta st
     \<and> (\<forall>r\<in>set rs. case r of (kl, act, tot, pp, pr) \<Rightarrow>
           kl = smul (kl_mean N pr pp) (kl_beta st) \<and> tot = sadd act kl)"
proof (induction batch arbitrary: st rs)
  case Nil
  then show ?case by (simp add: ret_Inr_iff)
next
  case (Cons item rest)
  from Cons.prems obtain r st1 rs' where
    r: "train_modality N item st = (Inr r, st1)"
    and rest: "train_all N rest st1 = (Inr rs', st')" and rs: "rs = r # rs'"
    by (auto simp: run_Inr_iffs)
  obtain kl act tot pp pr where r5: "r = (kl, act, tot, pp, pr)" by (cases r)
  note h = train_modality_Inr [OF r [unfolded r5]]
  from Cons.IH [OF rest] h rs r5 show ?case by auto
qed

lemma training_loop_train_all:
  "training_loop N batch (k, a, t) st =
     (case train_all N batch st of
        (Inl e, st') \<Rightarrow> (Inl e, st')
      | (Inr rs, st') \<Rightarrow>
          (Inr (foldl sadd k (map fst rs),
                foldl sadd a (map (\<lambda>r. fst (snd r)) rs),
                foldl sadd t (map (\<lambda>r. fst (snd (snd r))) rs)), st'))"
proof (induction batch arbitrary: k a t st)
  case Nil
  show ?case by (simp add: ret_def)
next
  case (Cons item rest)
  obtain r1 st1 where m: "train_modality N item st = (r1, st1)" by (cases "train_modality N item st")
  show ?case
  proof (cases r1)
    case (Inl e)
    with m show ?thesis by (simp add: seq_bind_def)
  next
    case (Inr r)
    obtain kl act tot pp pr where r5: "r = (kl, act, tot, pp, pr)" by (cases r)
    obtain r2 st2 where rest: "train_all N rest st1 = (r2, st2)" by (cases "train_all N rest st1")
    show ?thesis
      using m Inr r5 rest Cons.IH [of "sadd k kl" "sadd a act" "sadd t tot" st1]
      by (cases r2) (simp_all add: seq_bind_def ret_def)
  qed
qed

lemma training_step_train_all:
  "fst (training_step N batch st) =
     (case fst (train_all N batch st) of
        Inl e \<Rightarrow> Inl e
      | Inr rs \<Rightarrow> Inr (sdiv_count (ssum (map (\<lambda>r. fst (snd (snd r))) rs)) (length batch)))"
proof -
  obtain r2 st2 where rest: "train_all N batch st = (r2, st2)" by (cases "train_all N batch st")
  show ?thesis
    using rest training_loop_train_all [of N batch "Fin 0" "Fin 0" "Fin 0" st]
    by (cases r2) (simp_all add: training_step_def seq_bind_def ret_def log_def Let_def ssum_def)
qed

lemma call_opt_Inr_iff:
  "call_opt n fo x st = (Inr y, st') \<longleftrightarrow>
     (\<exists>f. fo = Some f \<and> f (params st) x = Inr y
        \<and> st' = st\<lparr>calls := calls st @ [(n, grad_enabled st)]\<rparr>)"
  by (cases fo) (auto simp: call_opt_def lift_def call_def)

lemma latent_goal_of_Inr:
  assumes "latent_goal_of N pe db st = (Inr g, st')"
  shows "calls st' = calls st @
           [(if sublist ''vis'' (modality_scope st) then VisualGoal else LanguageGoal,
             grad_enabled st)]"
    and "if sublist ''vis'' (modality_scope st)
         then \<exists>x. select_dim1 pe (- 1) = Inr x \<and> visual_goal_net N (params st) x = Inr g
         else \<exists>l f. lang db = Some l \<and> language_goal_net N = Some f \<and> f (params st) l = Inr g"
  using assms
  by (auto simp: latent_goal_of_def run_Inr_iffs call_opt_Inr_iff split: if_splits option.splits)

lemma goal_calls_append: "goal_calls (xs @ ys) = goal_calls xs @ goal_calls ys"
  by (simp add: goal_calls_def)

lemma goal_calls_none:
  assumes "fst ` set new \<subseteq> S" and "VisualGoal \<notin> S" and "LanguageGoal \<notin> S"
  shows "goal_calls new = []"
proof -
  have "\<forall>n\<in>set (map fst new). \<not> (n = VisualGoal \<or> n = LanguageGoal)"
    using assms by auto
  then show ?thesis unfolding goal_calls_def by (simp add: filter_empty_conv)
qed

lemma goal_calls_Cons:
  "goal_calls ((n, b) # cs) =
     (if n = VisualGoal \<or> n = LanguageGoal then n # goal_calls cs else goal_calls cs)"
  by (simp add: goal_calls_def)

lemma train_modality_goal:
  assumes "train_modality N (name, db) st = (Inr r, st')"
  shows "goal_calls (drop (length (calls st)) (calls st'))
           = [if sublist ''vis'' name then VisualGoal else LanguageGoal]
       \<and> (\<exists>ve st1 pe g st2.
             visual_embedding N (PyDict (rgb_obs db)) (PyDict (depth_obs db))
               (st\<lparr>modality_scope := name\<rparr>) = (Inr ve, st1)
           \<and> perceptual_embedding ve (robot_obs db) = Inr pe
           \<and> (if sublist ''vis'' name
               then \<exists>x. select_dim1 pe (- 1) = Inr x \<and> visual_goal_net N (params st) x = Inr g
               else \<exists>l f. lang db = Some l \<and> language_goal_net N = Some f
                      \<and> f (params st) l = Inr g)
           \<and> fst (lmp_train N pe g (actions db) st2) = Inr r)"
proof -
  let ?st0 = "st\<lparr>modality_scope := name\<rparr>"
  from assms [unfolded train_modality_def]
  obtain ve st1 pe g st2 st3 where
    ve: "visual_embedding N (PyDict (rgb_obs db)) (PyDict (depth_obs db)) ?st0 = (Inr ve, st1)"
    and pe: "perceptual_embedding ve (robot_obs db) = Inr pe"
    and g: "latent_goal_of N pe db st1 = (Inr g, st2)"
    and l: "lmp_train N pe g (actions db) st2 = (Inr r, st3)"
    and c: "calls st' = calls st3"
    by (auto simp: run_Inr_iffs set_modality_scope_Inr_iff)
  note f1 = preservesD [OF preserves_visual_embedding ve]
  note f3 = preservesD [OF preserves_lmp_train l]
  from f1(5) obtain new1 where n1: "calls st1 = calls ?st0 @ new1"
    "fst ` set new1 \<subseteq> {VisionStatic, VisionGripper, Tactile}" by blast
  from f3(5) obtain new3 where n3: "calls st3 = calls st2 @ new3"
    "fst ` set new3 \<subseteq> {PlanProposal, PlanRecognition, ActionDecoder}" by blast
  have scope: "modality_scope st1 = name" using f1(4) by simp
  have par: "params st1 = params st" using f1(1) by simp
  note lg = latent_goal_of_Inr [OF g, unfolded scope par]
  have "calls st' = calls st @ new1
      @ [(if sublist ''vis'' name then VisualGoal else LanguageGoal, grad_enabled st1)] @ new3"
    using c n1(1) n3(1) lg(1) by simp
  then have "drop (length (calls st)) (calls st') = new1
      @ [(if sublist ''vis'' name then VisualGoal else LanguageGoal, grad_enabled st1)] @ new3"
    by simp
  moreover have "goal_calls new1 = []" by (rule goal_calls_none [OF n1(2)]) simp_all
  moreover have "goal_calls new3 = []" by (rule goal_calls_none [OF n3(2)]) simp_all
  ultimately have gc: "goal_calls (drop (length (calls st)) (calls st'))
      = [if sublist ''vis'' name then VisualGoal else LanguageGoal]"
    by (simp add: goal_calls_append goal_calls_Cons)
  from l have "fst (lmp_train N pe g (actions db) st2) = Inr r" by simp
  with gc ve pe lg(2) show ?thesis by blast
qed

lemma val_modality_goal:
  assumes "val_modality N (name, db) output st = (Inr output', st')"
  shows "goal_calls (drop (length (calls st)) (calls st'))
           = [if sublist ''vis'' name then VisualGoal else LanguageGoal]
       \<and> (\<exists>ve st1 pe g st2 v.
             visual_embedding N (PyDict (rgb_obs db)) (PyDict (depth_obs db))
               (st\<lparr>modality_scope := name\<rparr>) = (Inr ve, st1)
           \<and> perceptual_embedding ve (robot_obs db) = Inr pe
           \<and> (if sublist ''vis'' name
               then \<exists>x. select_dim1 pe (- 1) = Inr x \<and> visual_goal_net N (params st) x = Inr g
               else \<exists>l f. lang db = Some l \<and> language_goal_net N = Some f
                      \<and> f (params st) l = Inr g)
           \<and> fst (lmp_val N pe g (actions db) st2) = Inr v)"
proof -
  let ?st0 = "st\<lparr>modality_scope := name\<rparr>"
  from assms [unfolded val_modality_def]
  obtain ve st1 pe g st2 v where
    ve: "visual_embedding N (PyDict (rgb_obs db)) (PyDict (depth_obs db)) ?st0 = (Inr ve, st1)"
    and pe: "perceptual_embedding ve (robot_obs db) = Inr pe"
    and g: "latent_goal_of N pe db st1 = (Inr g, st2)"
    and l: "lmp_val N pe g (actions db) st2 = (Inr v, st')"
    by (auto simp: run_Inr_iffs set_modality_scope_Inr_iff)
  note f1 = preservesD [OF preserves_visual_embedding ve]
  note f3 = preservesD [OF preserves_lmp_val l]
  from f1(5) obtain new1 where n1: "calls st1 = calls ?st0 @ new1"
    "fst ` set new1 \<subseteq> {VisionStatic, VisionGripper, Tactile}" by blast
  from f3(5) obtain new3 where n3: "calls st' = calls st2 @ new3"
    "fst ` set new3 \<subseteq> {PlanProposal, PlanRecognition, ActionDecoder}" by blast
  have scope: "modality_scope st1 = name" using f1(4) by simp
  have par: "params st1 = params st" using f1(1) by simp
  note lg = latent_goal_of_Inr [OF g, unfolded scope par]
  have "calls st' = calls st @ new1
      @ [(if sublist ''vis'' name then VisualGoal else LanguageGoal, grad_enabled st1)] @ new3"
    using n1(1) n3(1) lg(1) by simp
  then have "drop (length (calls st)) (calls st') = new1
      @ [(if sublist ''vis'' name then VisualGoal else LanguageGoal, grad_enabled st1)] @ new3"
    by simp
  moreover have "goal_calls new1 = []" by (rule goal_calls_none [OF n1(2)]) simp_all
  moreover have "goal_calls new3 = []" by (rule goal_calls_none [OF n3(2)]) simp_all
  ultimately have gc: "goal_calls (drop (length (calls st)) (calls st'))
      = [if sublist ''vis'' name then VisualGoal else LanguageGoal]"
    by (simp add: goal_calls_append goal_calls_Cons)
  from l have "fst (lmp_val N pe g (actions db) st2) = Inr v" by simp
  with gc ve pe lg(2) show ?thesis by blast
qed

lemma train_modality_example_vis:
  "fst (train_modality example_nets (''vis'', example_batch 1 None) example_st)
     = Inr (Fin 1, Fin 1, Fin 2, Tensor [1, 1] [Fin 0], Tensor [1, 1] [Fin 0])"
  by code_simp

lemma train_modality_example_lang:
  "fst (train_modality example_nets (''lang'', example_batch 1 (Some ''push'')) example_st)
     = Inr (Fin 1, Fin 1, Fin 2, Tensor [1, 1] [Fin 0], Tensor [1, 1] [Fin 0])"
  by code_simp

lemma val_modality_example_vis:
  "fst (val_modality example_nets (''vis'', example_batch 1 None) [] example_st)
     = Inr (example_val_output ''vis'')"
  by code_simp

lemma val_modality_example_lang:
  "fst (val_modality example_nets (''lang'', example_batch 1 (Some ''push'')) [] example_st)
     = Inr (example_val_output ''lang'')"
  by code_simp

lemma sublist_vis_examples: "sublist ''vis'' ''vis''" "\<not> sublist ''vis'' ''lang''"
  by code_simp+


text \<open>
  Claim C4. In an iteration of the loop of \<open>training_step\<close>, and of \<open>validation_step\<close>,
  that completes, exactly one goal encoder is called: the visual-goal encoder if the
  modality name contains \<open>vis\<close>, the language-goal encoder otherwise. The latent goal that
  goes into \<open>lmp_train\<close> (\<open>lmp_val\<close>) is the visual-goal encoder's output on the last
  timestep of the perceptual embedding in the first case, and the language-goal
  encoder's output on the batch's \<open>lang\<close> entry in the second.
\<close>

theorem goal_encoder_chosen_by_modality_name:
  "(fst (train_modality N (name, db) st) = Inr r \<longrightarrow>
      goal_calls (drop (length (calls st)) (calls (snd (train_modality N (name, db) st))))
        = [if sublist ''vis'' name then VisualGoal else LanguageGoal]
    \<and> (\<exists>ve st1 pe g st2.
          visual_embedding N (PyDict (rgb_obs db)) (PyDict (depth_obs db))
            (st\<lparr>modality_scope := name\<rparr>) = (Inr ve, st1)
        \<and> perceptual_embedding ve (robot_obs db) = Inr pe
        \<and> (if sublist ''vis'' name
            then \<exists>x. select_dim1 pe (- 1) = Inr x \<and> visual_goal_net N (params st) x = Inr g
            else \<exists>l f. lang db = Some l \<and> language_goal_net N = Some f
                   \<and> f (params st) l = Inr g)
        \<and> fst (lmp_train N pe g (actions db) st2) = Inr r))
   \<and> (fst (val_modality N (name, db) output st) = Inr output' \<longrightarrow>
      goal_calls (drop (length (calls st)) (calls (snd (val_modality N (name, db) output st))))
        = [if sublist ''vis'' name then VisualGoal else LanguageGoal]
    \<and> (\<exists>ve st1 pe g st2 v.
          visual_embedding N (PyDict (rgb_obs db)) (PyDict (depth_obs db))
            (st\<lparr>modality_scope := name\<rparr>) = (Inr ve, st1)
        \<and> perceptual_embedding ve (robot_obs db) = Inr pe
        \<and> (if sublist ''vis'' name
            then \<exists>x. select_dim1 pe (- 1) = Inr x \<and> visual_goal_net N (params st) x = Inr g
            else \<exists>l f. lang db = Some l \<and> language_goal_net N = Some f
                   \<and> f (params st) l = Inr g)
        \<and> fst (lmp_val N pe g (actions db) st2) = Inr v))"
proof (intro conjI impI)
  assume a: "fst (train_modality N (name, db) st) = Inr r"
  then have e: "train_modality N (name, db) st = (Inr r, snd (train_modality N (name, db) st))"
    by (metis prod.collapse)
  from train_modality_goal [OF e]
  show "goal_calls (drop (length (calls st)) (calls (snd (train_modality N (name, db) st))))
        = [if sublist ''vis'' name then VisualGoal else LanguageGoal]"
    and "\<exists>ve st1 pe g st2.
          visual_embedding N (PyDict (rgb_obs db)) (PyDict (depth_obs db))
            (st\<lparr>modality_scope := name\<rparr>) = (Inr ve, st1)
        \<and> perceptual_embedding ve (robot_obs db) = Inr pe
        \<and> (if sublist ''vis'' name
            then \<exists>x. select_dim1 pe (- 1) = Inr x \<and> visual_goal_net N (params st) x = Inr g
            else \<exists>l f. lang db = Some l \<and> language_goal_net N = Some f
                   \<and> f (params st) l = Inr g)
        \<and> fst (lmp_train N pe g (actions db) st2) = Inr r"
    by blast+
next
  assume a: "fst (val_modality N (name, db) output st) = Inr output'"
  then have e: "val_modality N (name, db) output st
      = (Inr output', snd (val_modality N (name, db) output st))"
    by (metis prod.collapse)
  from val_modality_goal [OF e]
  show "goal_calls (drop (length (calls st)) (calls (snd (val_modality N (name, db) output st))))
        = [if sublist ''vis'' name then VisualGoal else LanguageGoal]"
    and "\<exists>ve st1 pe g st2 v.
          visual_embedding N (PyDict (rgb_obs db)) (PyDict (depth_obs db))
            (st\<lparr>modality_scope := name\<rparr>) = (Inr ve, st1)
        \<and> perceptual_embedding ve (robot_obs db) = Inr pe
        \<and> (if sublist ''vis'' name
            then \<exists>x. select_dim1 pe (- 1) = Inr x \<and> visual_goal_net N (params st) x = Inr g
            else \<exists>l f. lang db = Some l \<and> language_goal_net N = Some f
                   \<and> f (params st) l = Inr g)
        \<and> fst (lmp_val N pe g (actions db) st2) = Inr v"
    by blast+
qed


theorem goal_encoder_chosen_by_modality_name_witness:
  "fst (train_modality example_nets (''vis'', example_batch 1 None) example_st)
     = Inr (Fin 1, Fin 1, Fin 2, Tensor [1, 1] [Fin 0], Tensor [1, 1] [Fin 0])
   \<and> goal_calls (calls (snd (train_modality example_nets (''vis'', example_batch 1 None) example_st)))
     = [VisualGoal]
   \<and> fst (val_modality example_nets (''vis'', example_batch 1 None) [] example_st)
     = Inr (example_val_output ''vis'')
   \<and> goal_calls (calls (snd (val_modality example_nets (''vis'', example_batch 1 None) [] example_st)))
     = [VisualGoal]
   \<and> fst (train_modality example_nets (''lang'', example_batch 1 (Some ''push'')) example_st)
     = Inr (Fin 1, Fin 1, Fin 2, Tensor [1, 1] [Fin 0], Tensor [1, 1] [Fin 0])
   \<and> goal_calls (calls (snd (train_modality example_nets
        (''lang'', example_batch 1 (Some ''push'')) example_st)))
     = [LanguageGoal]
   \<and> fst (val_modality example_nets (''lang'', example_batch 1 (Some ''push'')) [] example_st)
     = Inr (example_val_output ''lang'')
   \<and> goal_calls (calls (snd (val_modality example_nets
        (''lang'', example_batch 1 (Some ''push'')) [] example_st)))
     = [LanguageGoal]"
proof -
  have z: "length (calls example_st) = 0" by (simp add: example_st_def)
  note vis = goal_encoder_chosen_by_modality_name
    [of example_nets "''vis''" "example_batch 1 None" example_st
      "(Fin 1, Fin 1, Fin 2, Tensor [1, 1] [Fin 0], Tensor [1, 1] [Fin 0])" "[]"
      "example_val_output ''vis''"]
  note lang = goal_encoder_chosen_by_modality_name
    [of example_nets "''lang''" "example_batch 1 (Some ''push'')" example_st
      "(Fin 1, Fin 1, Fin 2, Tensor [1, 1] [Fin 0], Tensor [1, 1] [Fin 0])" "[]"
      "example_val_output ''lang''"]
  from vis train_modality_example_vis val_modality_example_vis sublist_vis_examples(1) z
  have v: "goal_calls (calls (snd (train_modality example_nets (''vis'', example_batch 1 None)
        example_st))) = [VisualGoal]"
    "goal_calls (calls (snd (val_modality example_nets (''vis'', example_batch 1 None) []
        example_st))) = [VisualGoal]"
    by simp_all
  from lang train_modality_example_lang val_modality_example_lang sublist_vis_examples(2) z
  have l: "goal_calls (calls (snd (train_modality example_nets
        (''lang'', example_batch 1 (Some ''push'')) example_st))) = [LanguageGoal]"
    "goal_calls (calls (snd (val_modality example_nets
        (''lang'', example_batch 1 (Some ''push'')) [] example_st))) = [LanguageGoal]"
    by simp_all
  from v l train_modality_example_vis val_modality_example_vis train_modality_example_lang
    val_modality_example_lang
  show ?thesis by simp
qed

section \<open>The total loss of a training step\<close>

lemma param_determinedD:
  "param_determined m \<Longrightarrow> params s = params s' \<Longrightarrow> fst (m s) = fst (m s')"
  unfolding param_determined_def by blast

lemma param_determined_ret: "param_determined (ret x)"
  by (simp add: param_determined_def ret_def)

lemma param_determined_lift: "param_determined (lift r)"
  by (simp add: param_determined_def lift_def)

lemma param_determined_call: "param_determined (call n f)"
  by (simp add: param_determined_def call_def)

lemma param_determined_call_opt: "param_determined (call_opt n f x)"
  by (cases f) (simp_all add: call_opt_def param_determined_lift param_determined_call)

lemma param_determined_bind:
  fixes m :: "('x, 'q) run"
  assumes m: "param_determined m" and p: "preserves S m" and f: "\<And>x. param_determined (f x)"
  shows "param_determined (seq_bind m f)"
  unfolding param_determined_def
proof (intro allI impI)
  fix s s' :: "'q state"
  assume e: "params s = params s'"
  obtain r s1 where r: "m s = (r, s1)" by (cases "m s")
  obtain r' s1' where r': "m s' = (r', s1')" by (cases "m s'")
  from param_determinedD [OF m e] have "fst (m s) = fst (m s')" .
  then have rr: "r' = r" unfolding r r' fst_conv by simp
  have p1: "params s1 = params s1'"
    using preservesD(1) [OF p r] preservesD(1) [OF p r'] e by simp
  show "fst (seq_bind m f s) = fst (seq_bind m f s')"
  proof (cases r)
    case (Inl err)
    have "seq_bind m f s = (Inl err, s1)" "seq_bind m f s' = (Inl err, s1')"
      unfolding seq_bind_def r r' rr Inl by simp_all
    then show ?thesis by simp
  next
    case (Inr x)
    have "seq_bind m f s = f x s1" "seq_bind m f s' = f x s1'"
      unfolding seq_bind_def r r' rr Inr by simp_all
    with param_determinedD [OF f [of x] p1] show ?thesis by (simp only:)
  qed
qed

lemma param_determined_case_prod:
  "(\<And>a b. param_determined (f a b)) \<Longrightarrow> param_determined (case_prod f p)"
  by (cases p) simp

lemma param_determined_case_option:
  "param_determined a \<Longrightarrow> (\<And>x. param_determined (f x))
     \<Longrightarrow> param_determined (case_option a f opt)"
  by (cases opt) simp_all

lemma param_determined_embed_static: "param_determined (embed_static N imgs depth)"
  unfolding embed_static_def
  by (intro param_determined_bind [where S = UNIV] param_determined_lift param_determined_call
      param_determined_case_prod preserves_lift preserves_call) simp

lemma param_determined_embed_gripper: "param_determined (embed_gripper N enc imgs depth)"
  unfolding embed_gripper_def
  by (intro param_determined_bind [where S = UNIV] param_determined_lift param_determined_call_opt
      param_determined_ret param_determined_case_prod param_determined_case_option
      preserves_lift preserves_call_opt) simp

lemma param_determined_embed_tactile: "param_determined (embed_tactile N enc imgs)"
  unfolding embed_tactile_def
  by (intro param_determined_bind [where S = UNIV] param_determined_lift param_determined_call_opt
      param_determined_ret param_determined_case_prod param_determined_case_option
      preserves_lift preserves_call_opt) simp

lemma param_determined_visual_embedding:
  "param_determined (visual_embedding N imgs depth_imgs)"
  unfolding visual_embedding_def
  by (intro param_determined_bind [where S = "{VisionStatic, VisionGripper, Tactile}"]
      param_determined_lift param_determined_embed_static param_determined_embed_gripper
      param_determined_embed_tactile preserves_lift preserves_embed_static preserves_embed_gripper)

lemma lmp_train_networks:
  assumes "lmp_train N pe g acts st = (Inr (kl, act, tot, pp, pr), st')"
  shows "\<exists>first kl_t.
       select_dim1 pe 0 = Inr first
     \<and> plan_proposal_net N (params st) first g = Inr pp
     \<and> plan_recognition_net N (params st) pe = Inr pr
     \<and> decoder_loss N (params st) (dist_sample N pr (rng st)) pe g acts = Inr act
     \<and> kl_divergence N pr pp = Inr kl_t
     \<and> kl = smul (tensor_mean kl_t) (kl_beta st)
     \<and> tot = sadd act kl"
proof -
  from assms obtain first st1 where
    f: "select_dim1 pe 0 = Inr first"
    and pp: "plan_proposal_net N (params st) first g = Inr pp"
    and pr: "plan_recognition_net N (params st) pe = Inr pr"
    and a: "decoder_loss N (params st) (dist_sample N pr (rng st)) pe g acts = Inr act"
    and k: "compute_kl_loss N pr pp st1 = (Inr kl, st')"
    and b: "kl_beta st1 = kl_beta st" and t: "tot = sadd act kl"
    by (auto simp: lmp_train_def run_Inr_iffs)
  from compute_kl_loss_Inr(1) [OF k] b obtain kl_t where
    "kl_divergence N pr pp = Inr kl_t" "kl = smul (tensor_mean kl_t) (kl_beta st)"
    by auto
  with f pp pr a t show ?thesis by blast
qed

lemma train_modality_result:
  assumes t: "train_modality N item s = (Inr r, s')"
    and ps: "params s = params st" and bs: "kl_beta s = kl_beta st"
  shows "modality_result N st item r" and "params s' = params st" and "kl_beta s' = kl_beta st"
proof -
  obtain name db where item: "item = (name, db)" by (cases item)
  obtain kl act tot pp pr where r: "r = (kl, act, tot, pp, pr)" by (cases r)
  let ?s0 = "s\<lparr>modality_scope := name\<rparr>"
  from t [unfolded item r train_modality_def]
  obtain ve st1 pe g st2 st3 where
    ve: "visual_embedding N (PyDict (rgb_obs db)) (PyDict (depth_obs db)) ?s0 = (Inr ve, st1)"
    and pe: "perceptual_embedding ve (robot_obs db) = Inr pe"
    and g: "latent_goal_of N pe db st1 = (Inr g, st2)"
    and l: "lmp_train N pe g (actions db) st2 = (Inr (kl, act, tot, pp, pr), st3)"
    and e: "params s' = params st3" "kl_beta s' = kl_beta st3"
    by (auto simp: run_Inr_iffs set_modality_scope_Inr_iff)
  note f1 = preservesD [OF preserves_visual_embedding ve]
  note f2 = preservesD [OF preserves_latent_goal_of g]
  note f3 = preservesD [OF preserves_lmp_train l]
  have p1: "params st1 = params st" using f1(1) ps by simp
  have p2: "params st2 = params st" using f2(1) p1 by simp
  have b2: "kl_beta st2 = kl_beta st" using f1(2) f2(2) bs by simp
  have scope: "modality_scope st1 = name" using f1(4) by simp
  have "params st = params ?s0" using ps by simp
  from param_determinedD [OF param_determined_visual_embedding
      [of N "PyDict (rgb_obs db)" "PyDict (depth_obs db)"] this] ve
  have ve': "fst (visual_embedding N (PyDict (rgb_obs db)) (PyDict (depth_obs db)) st) = Inr ve"
    by simp
  note lg = latent_goal_of_Inr(2) [OF g, unfolded scope p1]
  from lmp_train_networks [OF l, unfolded p2 b2]
  obtain first kl_t where n: "select_dim1 pe 0 = Inr first"
    "plan_proposal_net N (params st) first g = Inr pp"
    "plan_recognition_net N (params st) pe = Inr pr"
    "decoder_loss N (params st) (dist_sample N pr (rng st2)) pe g (actions db) = Inr act"
    "kl_divergence N pr pp = Inr kl_t"
    "kl = smul (tensor_mean kl_t) (kl_beta st)"
    "tot = sadd act kl"
    by blast
  show "modality_result N st item r"
    unfolding modality_result_def item r prod.case
    using ve' pe lg n by blast
  show "params s' = params st" using e(1) f3(1) p2 by simp
  show "kl_beta s' = kl_beta st" using e(2) f3(2) b2 by simp
qed

lemma train_all_results:
  "train_all N batch s = (Inr rs, s') \<Longrightarrow> params s = params st \<Longrightarrow> kl_beta s = kl_beta st
     \<Longrightarrow> list_all2 (modality_result N st) batch rs"
proof (induction batch arbitrary: s rs)
  case Nil
  then show ?case by (simp add: ret_Inr_iff)
next
  case (Cons item rest)
  from Cons.prems(1) obtain r s1 rs' where
    r: "train_modality N item s = (Inr r, s1)"
    and rest: "train_all N rest s1 = (Inr rs', s')" and rs: "rs = r # rs'"
    by (auto simp: run_Inr_iffs)
  note h = train_modality_result [OF r Cons.prems(2) Cons.prems(3)]
  from Cons.IH [OF rest h(2) h(3)] h(1) rs show ?case by simp
qed

lemma train_all_example_pair:
  "fst (train_all telling_nets example_pair example_st) = Inr example_pair_results"
  by code_simp

text \<open>
  Claim C3. When the loop body completes for every modality of the batch, with the
  results \<open>rs\<close> in the order of the batch, \<open>training_step\<close> returns the sum over the
  modalities of the action loss plus \<open>kl_beta\<close> times the batch-averaged KL divergence
  from the recognition to the proposal distribution of that modality, divided by the
  number of modalities. Every modality weighs the same; no batch size enters.
  For each modality the action loss is the action decoder's loss for a sample of the
  plan-recognition network's distribution on the perceptual embedding, the proposal
  distribution is the plan-proposal network's for the first timestep of the embedding
  and the latent goal, and the modality's loss is the sum of the two terms
  (\<open>modality_result\<close>).
\<close>

theorem training_step_total_loss:
  assumes "fst (train_all N batch st) = Inr rs"
  shows "fst (training_step N batch st) = Inr (mean_modality_loss N (kl_beta st) rs)
       \<and> length rs = length batch
       \<and> list_all2 (modality_result N st) batch rs"
proof -
  from fst_run_Inr [OF assms] obtain st' where t: "train_all N batch st = (Inr rs, st')" ..
  note inv = train_all_Inr [OF t]
  have pinned: "list_all2 (modality_result N st) batch rs"
    by (rule train_all_results [OF t refl refl])
  have m: "map (\<lambda>(kl, act_loss, mod_loss, pp_dist, pr_dist).
               sadd act_loss (smul (kl_mean N pr_dist pp_dist) (kl_beta st))) rs
      = map (\<lambda>r. fst (snd (snd r))) rs"
    using inv by (intro map_cong refl) auto
  have len: "length rs = length batch" using inv by simp
  have "fst (training_step N batch st)
      = Inr (sdiv_count (ssum (map (\<lambda>r. fst (snd (snd r))) rs)) (length batch))"
    using assms by (simp add: training_step_train_all)
  then have "fst (training_step N batch st) = Inr (mean_modality_loss N (kl_beta st) rs)"
    unfolding mean_modality_loss_def m len .
  with len pinned show ?thesis by simp
qed


theorem training_step_total_loss_witness:
  "fst (train_all telling_nets example_pair example_st) = Inr example_pair_results
   \<and> fst (training_step telling_nets example_pair example_st) = Inr (Fin 2)
   \<and> length example_pair_results = length example_pair
   \<and> list_all2 (modality_result telling_nets example_st) example_pair example_pair_results"
proof -
  have v: "mean_modality_loss telling_nets (kl_beta example_st) example_pair_results = Fin 2"
    by code_simp
  from training_step_total_loss [OF train_all_example_pair] v train_all_example_pair
  show ?thesis by simp
qed

end
